(* ===== verification/Prelude.thy ===== *)
theory Prelude
  imports Main "HOL-Library.Sublist" "HOL-Library.Multiset" "HOL-Library.Product_Lexorder"
begin

text \<open>
  Shared vocabulary of the development: the JavaScript built-ins that \<open>src/script.js\<close>
  calls on strings and arrays (\<open>String.prototype.trim\<close>, \<open>toLowerCase\<close>,
  \<open>includes\<close>, \<open>Array.prototype.indexOf\<close>, \<open>splice(i, 1)\<close>), written as executable
  HOL functions, with the lemmas that connect them to the HOL list library. JS strings are
  modelled as \<open>string\<close>: a \<open>char\<close> is read as the code point
  \<open>U+0000\<close>--\<open>U+00FF\<close> with the same number (Latin-1), and white space and
  case mapping are those JavaScript defines on that range.
  The collection \<open>js_simps\<close> gathers the rewrite rules the component theories use to
  evaluate the built-ins.
\<close>

named_theorems js_simps "rewrite rules for the modelled JavaScript built-ins"

type_synonym js_string = string

section \<open>Strings\<close>

text \<open>The white space and line terminators of ECMAScript (sections 12.2, 12.3) with a
  code point below \<open>U+0100\<close>: tab, line feed, vertical tab, form feed, carriage
  return, space and no-break space (\<open>U+00A0\<close>).\<close>

definition is_js_space :: "char \<Rightarrow> bool" where
  "is_js_space c \<longleftrightarrow>
     (let n = of_char c :: nat in n = 32 \<or> n = 160 \<or> (9 \<le> n \<and> n \<le> 13))"

text \<open>\<open>s.trim()\<close>: strip white space at both ends.\<close>

definition js_trim :: "js_string \<Rightarrow> js_string" where
  "js_trim s = rev (dropWhile is_js_space (rev (dropWhile is_js_space s)))"

text \<open>The Unicode lower-case mapping below \<open>U+0100\<close>: \<open>A\<close>--\<open>Z\<close> and the
  Latin-1 capitals \<open>U+00C0\<close>--\<open>U+00DE\<close> (except the sign \<open>U+00D7\<close>) move up
  by 32; every other character, \<open>U+00DF\<close> included, is its own lower case.\<close>

definition js_lower_char :: "char \<Rightarrow> char" where
  "js_lower_char c =
     (let n = of_char c :: nat
      in if (65 \<le> n \<and> n \<le> 90) \<or> (192 \<le> n \<and> n \<le> 222 \<and> n \<noteq> 215) then char_of (n + 32) else c)"

text \<open>\<open>s.toLowerCase()\<close>.\<close>

definition js_lower :: "js_string \<Rightarrow> js_string" where
  "js_lower s = map js_lower_char s"

text \<open>\<open>s.includes(q)\<close>: \<open>q\<close> occurs in \<open>s\<close> as a contiguous substring.\<close>

fun js_includes :: "js_string \<Rightarrow> js_string \<Rightarrow> bool" where
  "js_includes [] q \<longleftrightarrow> q = []"
| "js_includes (c # s) q \<longleftrightarrow> prefix q (c # s) \<or> js_includes s q"

section \<open>Arrays\<close>

text \<open>\<open>xs.indexOf(x)\<close>: the first position of \<open>x\<close>, or \<open>-1\<close>.\<close>

fun index_of :: "'a list \<Rightarrow> 'a \<Rightarrow> int" where
  "index_of [] x = -1"
| "index_of (y # ys) x = (if y = x then 0 else (let i = index_of ys x in if i = -1 then -1 else i + 1))"

text \<open>\<open>xs.splice(i, 1)\<close> (the array after the call): a negative start counts from the
  end, a start past the end removes nothing.\<close>

definition js_splice1 :: "'a list \<Rightarrow> int \<Rightarrow> 'a list" where
  "js_splice1 xs i =
     (let n = int (length xs); k = nat (if i < 0 then max 0 (n + i) else min i n)
      in take k xs @ drop (Suc k) xs)"

section \<open>Lemmas on the built-ins\<close>

lemma js_includes_sublist [js_simps]: "js_includes s q \<longleftrightarrow> sublist q s"
  by (induction s) (auto simp: sublist_Cons_right)

lemma js_includes_Nil [simp]: "js_includes s []"
  by (simp add: js_includes_sublist)

lemma index_of_eq:
  "index_of xs x = (if x \<in> set xs then int (length (takeWhile (\<lambda>y. y \<noteq> x) xs)) else -1)"
  by (induction xs) (auto simp: Let_def)

lemma index_of_neg [js_simps]: "index_of xs x = -1 \<longleftrightarrow> x \<notin> set xs"
  by (simp add: index_of_eq)

lemma index_of_found:
  "x \<in> set xs \<Longrightarrow> index_of xs x = int (length (takeWhile (\<lambda>y. y \<noteq> x) xs))"
  by (simp add: index_of_eq)

lemma takeWhile_neq_remove1:
  "x \<in> set xs \<Longrightarrow>
     take (length (takeWhile (\<lambda>y. y \<noteq> x) xs)) xs
       @ drop (Suc (length (takeWhile (\<lambda>y. y \<noteq> x) xs))) xs = remove1 x xs"
  by (induction xs) auto

text \<open>Removing at the position \<open>indexOf\<close> reports is \<open>remove1\<close>.\<close>

lemma js_splice1_index_of [js_simps]:
  assumes "x \<in> set xs"
  shows "js_splice1 xs (index_of xs x) = remove1 x xs"
proof -
  have le: "length (takeWhile (\<lambda>y. y \<noteq> x) xs) \<le> length xs"
    by (rule length_takeWhile_le)
  show ?thesis
    using assms le takeWhile_neq_remove1 [OF assms]
    by (simp add: js_splice1_def index_of_found Let_def)
qed

lemma remove1_append_not_in [simp]: "x \<notin> set xs \<Longrightarrow> remove1 x (xs @ [x]) = xs"
  by (induction xs) auto

lemma distinct_remove1_not_in: "distinct xs \<Longrightarrow> x \<notin> set (remove1 x xs)"
  by (induction xs) auto

end
