(* ===== verification/Store.thy ===== *)
theory Store
  imports Prelude
begin

text \<open>
  The persistent store of \<open>src/script.js\<close>: \<open>localStorage\<close> as a finite map from keys
  to strings, the five keys the script uses (lines 16--19, 38, 59, 146--150), the read
  \<open>localStorage.getItem(k) || d\<close> (JavaScript's \<open>||\<close> also replaces the empty string).
  \<open>setItem\<close> is a map update, written inside the operations that call it. The
  serialisation of the favourites list is the theory \<open>Json\<close>.
\<close>

type_synonym storage = "js_string \<rightharpoonup> js_string"

section \<open>Keys and reads\<close>

definition key_sort :: js_string where "key_sort = ''sotohit-sort''"
definition key_filter :: js_string where "key_filter = ''sotohit-filter''"
definition key_favorites :: js_string where "key_favorites = ''sotohit-favorites''"
definition key_page :: js_string where "key_page = ''sotohit-page''"
definition key_search :: js_string where "key_search = ''sotohit-search''"

lemmas store_keys = key_sort_def key_filter_def key_favorites_def key_page_def key_search_def

text \<open>\<open>localStorage.getItem(k) || d\<close>: \<open>null\<close> and \<open>''\<close> are falsy.\<close>

definition get_or :: "storage \<Rightarrow> js_string \<Rightarrow> js_string \<Rightarrow> js_string" where
  "get_or st k d = (case st k of None \<Rightarrow> d | Some v \<Rightarrow> if v = [] then d else v)"

lemma get_or_set_same [simp]: "v \<noteq> [] \<Longrightarrow> get_or (st(k \<mapsto> v)) k d = v"
  by (simp add: get_or_def)

lemma get_or_set_other [simp]: "k' \<noteq> k \<Longrightarrow> get_or (st(k' \<mapsto> v)) k d = get_or st k d"
  by (simp add: get_or_def)

lemma store_keys_distinct [simp]:
  "key_sort \<noteq> key_filter" "key_sort \<noteq> key_favorites" "key_sort \<noteq> key_page" "key_sort \<noteq> key_search"
  "key_filter \<noteq> key_sort" "key_filter \<noteq> key_favorites" "key_filter \<noteq> key_page" "key_filter \<noteq> key_search"
  "key_favorites \<noteq> key_sort" "key_favorites \<noteq> key_filter" "key_favorites \<noteq> key_page"
  "key_favorites \<noteq> key_search"
  "key_page \<noteq> key_sort" "key_page \<noteq> key_filter" "key_page \<noteq> key_favorites" "key_page \<noteq> key_search"
  "key_search \<noteq> key_sort" "key_search \<noteq> key_filter" "key_search \<noteq> key_favorites" "key_search \<noteq> key_page"
  by (simp_all add: store_keys)

end
