(* ===== verification/Json.thy ===== *)
theory Json
  imports Store
begin

text \<open>
  \<open>JSON.stringify\<close> and \<open>JSON.parse\<close> as the script uses them on the favourites
  (lines 18 and 59). \<open>json_stringify\<close> writes an array of strings. \<open>json_parse\<close> reads
  any JSON text: a lexer (\<open>lex\<close>) splits the text into tokens, skipping white space, and
  a parser with an explicit stack of open arrays and objects (\<open>prun\<close>) builds the value,
  one token per step. Text that is not JSON gives \<open>JsonSyntaxError\<close>, the
  \<open>SyntaxError\<close> that \<open>JSON.parse\<close> throws. Numbers keep their literal text, objects
  their members in order (a repeated key is kept twice; \<open>JSON.parse\<close> keeps the last,
  which nothing here observes). Characters are 8-bit: a \<open>\uXXXX\<close> escape above
  \<open>00FF\<close> is rejected. \<open>parse_favorites\<close> is what line 18 needs: the list of ids
  when the value is an array of strings, and the reason otherwise.
\<close>

section \<open>JSON.stringify on an array of strings\<close>

definition hex_digit :: "nat \<Rightarrow> char" where
  "hex_digit n = (if n < 10 then char_of (48 + n) else char_of (87 + n))"

text \<open>The escape of one character inside a JSON string literal, as \<open>JSON.stringify\<close>
  writes it: the two-character escapes where JSON has one, \<open>\u00xx\<close> (lower-case hex)
  for the other control characters, the character itself otherwise.\<close>

definition json_esc_char :: "char \<Rightarrow> string" where
  "json_esc_char c =
     (if c = CHR 0x22 then [CHR 0x5C, CHR 0x22]
      else if c = CHR 0x5C then [CHR 0x5C, CHR 0x5C]
      else if c = CHR 0x08 then [CHR 0x5C, CHR ''b'']
      else if c = CHR 0x09 then [CHR 0x5C, CHR ''t'']
      else if c = CHR 0x0A then [CHR 0x5C, CHR ''n'']
      else if c = CHR 0x0C then [CHR 0x5C, CHR ''f'']
      else if c = CHR 0x0D then [CHR 0x5C, CHR ''r'']
      else if of_char c < (32::nat) then
        [CHR 0x5C, CHR ''u'', CHR ''0'', CHR ''0'', hex_digit (of_char c div 16), hex_digit (of_char c mod 16)]
      else [c])"

definition json_quote :: "string \<Rightarrow> string" where
  "json_quote s = CHR 0x22 # concat (map json_esc_char s) @ [CHR 0x22]"

fun json_join :: "string list \<Rightarrow> string" where
  "json_join [] = []"
| "json_join [x] = x"
| "json_join (x # y # ys) = x @ CHR '','' # json_join (y # ys)"

definition json_stringify :: "string list \<Rightarrow> string" where
  "json_stringify xs = CHR ''['' # json_join (map json_quote xs) @ [CHR '']'']"

section \<open>JSON values and tokens\<close>

datatype json =
    JNull
  | JBool bool
  | JNum string
  | JStr string
  | JArr "json list"
  | JObj "(string \<times> json) list"

datatype token =
    TLBrack | TRBrack | TLBrace | TRBrace | TComma | TColon
  | TStr string | TNum string | TTrue | TFalse | TNull

datatype json_error = JsonSyntaxError

section \<open>Lexing\<close>

definition is_json_ws :: "char \<Rightarrow> bool" where
  "is_json_ws c \<longleftrightarrow> c = CHR '' '' \<or> c = CHR 0x09 \<or> c = CHR 0x0A \<or> c = CHR 0x0D"

definition skip_ws :: "string \<Rightarrow> string" where
  "skip_ws s = dropWhile is_json_ws s"

definition hex_val :: "char \<Rightarrow> nat option" where
  "hex_val c =
     (let n = of_char c :: nat in
      if 48 \<le> n \<and> n \<le> 57 then Some (n - 48)
      else if 97 \<le> n \<and> n \<le> 102 then Some (n - 87)
      else if 65 \<le> n \<and> n \<le> 70 then Some (n - 55)
      else None)"

definition hex4 :: "char \<Rightarrow> char \<Rightarrow> char \<Rightarrow> char \<Rightarrow> nat option" where
  "hex4 a b c d =
     (case (hex_val a, hex_val b, hex_val c, hex_val d) of
        (Some w, Some x, Some y, Some z) \<Rightarrow> Some (((w * 16 + x) * 16 + y) * 16 + z)
      | _ \<Rightarrow> None)"

definition simple_unescape :: "char \<Rightarrow> char option" where
  "simple_unescape e =
     (if e = CHR 0x22 then Some (CHR 0x22)
      else if e = CHR 0x5C then Some (CHR 0x5C)
      else if e = CHR ''/'' then Some (CHR ''/'')
      else if e = CHR ''b'' then Some (CHR 0x08)
      else if e = CHR ''f'' then Some (CHR 0x0C)
      else if e = CHR ''n'' then Some (CHR 0x0A)
      else if e = CHR ''r'' then Some (CHR 0x0D)
      else if e = CHR ''t'' then Some (CHR 0x09)
      else None)"

text \<open>The body of a string literal after its opening quote: the decoded string and the
  text after the closing quote. A \<open>\uXXXX\<close> escape above \<open>00FF\<close> is outside the
  8-bit character model and rejected.\<close>

fun parse_str :: "string \<Rightarrow> (string \<times> string) option" where
  "parse_str [] = None"
| "parse_str (c # cs) =
     (if c = CHR 0x22 then Some ([], cs)
      else if c = CHR 0x5C then
        (case cs of
           [] \<Rightarrow> None
         | e # r \<Rightarrow>
             (if e = CHR ''u'' then
                (case r of
                   a # b # d # f # r' \<Rightarrow>
                     (case hex4 a b d f of
                        Some n \<Rightarrow> if n < 256 then map_option (apfst (Cons (char_of n))) (parse_str r')
                                  else None
                      | None \<Rightarrow> None)
                 | _ \<Rightarrow> None)
              else
                (case simple_unescape e of
                   Some ch \<Rightarrow> map_option (apfst (Cons ch)) (parse_str r)
                 | None \<Rightarrow> None)))
      else if of_char c < (32::nat) then None
      else map_option (apfst (Cons c)) (parse_str cs))"

lemma parse_str_shorter: "parse_str s = Some (v, r) \<Longrightarrow> length r < length s"
proof (induction s arbitrary: v rule: parse_str.induct)
  case 1
  then show ?case by simp
next
  case (2 c cs)
  then show ?case
    by (fastforce split: if_splits option.splits list.splits)
qed

lemma length_skip_ws: "length (skip_ws s) \<le> length s"
  by (simp add: skip_ws_def length_dropWhile_le)

lemma skip_ws_Cons_shorter: "skip_ws s = c # r \<Longrightarrow> length r < length s"
  using length_skip_ws [of s] by simp

text \<open>The elements after the first: \<open>, "..."\<close> until the closing bracket.\<close>
text \<open>Numbers: \<open>-?(0|[1-9][0-9]*)(.[0-9]+)?([eE][+-]?[0-9]+)?\<close>, longest match. A
  leading zero followed by more digits ends the number after the zero, so the parser sees
  two values in a row and rejects the text, as \<open>JSON.parse\<close> does.\<close>

definition is_digit :: "char \<Rightarrow> bool" where
  "is_digit c \<longleftrightarrow> 48 \<le> (of_char c :: nat) \<and> (of_char c :: nat) \<le> 57"

definition lex_digits1 :: "string \<Rightarrow> (string \<times> string) option" where
  "lex_digits1 s = (if takeWhile is_digit s = [] then None else Some (takeWhile is_digit s, dropWhile is_digit s))"

definition lex_int_part :: "string \<Rightarrow> (string \<times> string) option" where
  "lex_int_part s =
     (case s of
        [] \<Rightarrow> None
      | c # r \<Rightarrow> if c = CHR ''0'' then Some ([c], r) else lex_digits1 s)"

definition lex_frac :: "string \<Rightarrow> (string \<times> string) option" where
  "lex_frac s =
     (case s of
        c # r \<Rightarrow> if c = CHR ''.'' then map_option (apfst (Cons c)) (lex_digits1 r) else Some ([], s)
      | [] \<Rightarrow> Some ([], []))"

definition lex_exp :: "string \<Rightarrow> (string \<times> string) option" where
  "lex_exp s =
     (case s of
        c # r \<Rightarrow>
          if c = CHR ''e'' \<or> c = CHR ''E'' then
            (case r of
               x # r' \<Rightarrow>
                 if x = CHR ''+'' \<or> x = CHR ''-'' then map_option (apfst (\<lambda>ds. c # x # ds)) (lex_digits1 r')
                 else map_option (apfst (Cons c)) (lex_digits1 r)
             | [] \<Rightarrow> None)
          else Some ([], s)
      | [] \<Rightarrow> Some ([], []))"

definition lex_number :: "string \<Rightarrow> (string \<times> string) option" where
  "lex_number s =
     (let (sg, s1) = (case s of c # r \<Rightarrow> if c = CHR ''-'' then ([c], r) else ([], s) | [] \<Rightarrow> ([], []))
      in case lex_int_part s1 of
           None \<Rightarrow> None
         | Some (i, s2) \<Rightarrow>
             (case lex_frac s2 of
                None \<Rightarrow> None
              | Some (f, s3) \<Rightarrow>
                  (case lex_exp s3 of
                     None \<Rightarrow> None
                   | Some (e, s4) \<Rightarrow> Some (sg @ i @ f @ e, s4))))"

lemma lex_digits1_shorter: "lex_digits1 s = Some (d, r) \<Longrightarrow> length r < length s"
  by (cases s) (auto simp: lex_digits1_def length_dropWhile_le le_imp_less_Suc split: if_splits)

lemma lex_digits1_le: "lex_digits1 s = Some (d, r) \<Longrightarrow> length r \<le> length s"
  using lex_digits1_shorter by fastforce

lemma lex_int_part_shorter: "lex_int_part s = Some (i, r) \<Longrightarrow> length r < length s"
  by (cases s) (auto simp: lex_int_part_def split: if_splits dest: lex_digits1_shorter)

lemma lex_frac_le: "lex_frac s = Some (f, r) \<Longrightarrow> length r \<le> length s"
  by (auto simp: lex_frac_def dest: lex_digits1_le split: list.splits if_splits)

lemma lex_exp_le: "lex_exp s = Some (e, r) \<Longrightarrow> length r \<le> length s"
  by (auto simp: lex_exp_def dest: lex_digits1_le split: list.splits if_splits)

lemma lex_number_shorter: "lex_number s = Some (n, r) \<Longrightarrow> length r < length s"
  by (fastforce simp: lex_number_def dest!: lex_int_part_shorter lex_frac_le lex_exp_le
      split: list.splits if_splits option.splits)

lemma lex_number_skip_ws:
  "skip_ws s = c # r \<Longrightarrow> lex_number (c # r) = Some (n, r') \<Longrightarrow> length r' < length s"
  using lex_number_shorter length_skip_ws [of s] by fastforce

lemma parse_str_skip_ws:
  "skip_ws s = c # r \<Longrightarrow> parse_str r = Some (v, r') \<Longrightarrow> length r' < length s"
  using parse_str_shorter skip_ws_Cons_shorter by fastforce

text \<open>The lexer: one token per step after white space; \<open>None\<close> on a character that
  starts no token.\<close>

function lex :: "string \<Rightarrow> token list option" where
  "lex s =
     (case skip_ws s of
        [] \<Rightarrow> Some []
      | c # r \<Rightarrow>
          (if c = CHR ''['' then map_option (Cons TLBrack) (lex r)
           else if c = CHR '']'' then map_option (Cons TRBrack) (lex r)
           else if c = CHR ''{'' then map_option (Cons TLBrace) (lex r)
           else if c = CHR ''}'' then map_option (Cons TRBrace) (lex r)
           else if c = CHR '','' then map_option (Cons TComma) (lex r)
           else if c = CHR '':'' then map_option (Cons TColon) (lex r)
           else if c = CHR 0x22 then
             (case parse_str r of
                None \<Rightarrow> None
              | Some (v, r') \<Rightarrow> map_option (Cons (TStr v)) (lex r'))
           else if c = CHR ''t'' \<and> take 3 r = ''rue'' then map_option (Cons TTrue) (lex (drop 3 r))
           else if c = CHR ''f'' \<and> take 4 r = ''alse'' then map_option (Cons TFalse) (lex (drop 4 r))
           else if c = CHR ''n'' \<and> take 3 r = ''ull'' then map_option (Cons TNull) (lex (drop 3 r))
           else
             (case lex_number (c # r) of
                None \<Rightarrow> None
              | Some (n, r') \<Rightarrow> map_option (Cons (TNum n)) (lex r'))))"
  by pat_completeness auto
termination
  by (relation "measure length")
     (auto dest: parse_str_skip_ws skip_ws_Cons_shorter lex_number_skip_ws)

declare lex.simps [simp del]

section \<open>Parsing\<close>

text \<open>The stack holds the open arrays (elements so far, last first), the open objects
  (members so far, last first) and an object whose next member's key has been read. The
  mode says what may come next.\<close>

datatype frame = FArr "json list" | FObj "(string \<times> json) list" | FKey "(string \<times> json) list" string

datatype pmode = MValue | MArrOpen | MObjOpen | MKey | MColon | MAfter | MDone json

text \<open>A complete value goes into the innermost open container, or ends the text.\<close>

fun close_value :: "json \<Rightarrow> frame list \<Rightarrow> (frame list \<times> pmode) option" where
  "close_value v [] = Some ([], MDone v)"
| "close_value v (FArr vs # st) = Some (FArr (v # vs) # st, MAfter)"
| "close_value v (FKey ms k # st) = Some (FObj ((k, v) # ms) # st, MAfter)"
| "close_value v (FObj ms # st) = None"

fun scalar_token :: "token \<Rightarrow> json option" where
  "scalar_token (TStr s) = Some (JStr s)"
| "scalar_token (TNum n) = Some (JNum n)"
| "scalar_token TTrue = Some (JBool True)"
| "scalar_token TFalse = Some (JBool False)"
| "scalar_token TNull = Some JNull"
| "scalar_token _ = None"

definition start_value :: "frame list \<Rightarrow> token \<Rightarrow> (frame list \<times> pmode) option" where
  "start_value st t =
     (case scalar_token t of
        Some v \<Rightarrow> close_value v st
      | None \<Rightarrow>
          if t = TLBrack then Some (FArr [] # st, MArrOpen)
          else if t = TLBrace then Some (FObj [] # st, MObjOpen)
          else None)"

definition key_token :: "frame list \<Rightarrow> token \<Rightarrow> (frame list \<times> pmode) option" where
  "key_token st t =
     (case (t, st) of
        (TStr k, FObj ms # st') \<Rightarrow> Some (FKey ms k # st', MColon)
      | _ \<Rightarrow> None)"

definition after_item :: "frame list \<Rightarrow> token \<Rightarrow> (frame list \<times> pmode) option" where
  "after_item st t =
     (case st of
        FArr vs # st' \<Rightarrow>
          if t = TComma then Some (st, MValue)
          else if t = TRBrack then close_value (JArr (rev vs)) st'
          else None
      | FObj ms # st' \<Rightarrow>
          if t = TComma then Some (st, MKey)
          else if t = TRBrace then close_value (JObj (rev ms)) st'
          else None
      | _ \<Rightarrow> None)"

definition pstep :: "frame list \<Rightarrow> pmode \<Rightarrow> token \<Rightarrow> (frame list \<times> pmode) option" where
  "pstep st m t =
     (case m of
        MValue \<Rightarrow> start_value st t
      | MArrOpen \<Rightarrow>
          if t = TRBrack then (case st of FArr [] # st' \<Rightarrow> close_value (JArr []) st' | _ \<Rightarrow> None)
          else start_value st t
      | MObjOpen \<Rightarrow>
          if t = TRBrace then (case st of FObj [] # st' \<Rightarrow> close_value (JObj []) st' | _ \<Rightarrow> None)
          else key_token st t
      | MKey \<Rightarrow> key_token st t
      | MColon \<Rightarrow> if t = TColon then Some (st, MValue) else None
      | MAfter \<Rightarrow> after_item st t
      | MDone v \<Rightarrow> None)"

fun prun :: "frame list \<Rightarrow> pmode \<Rightarrow> token list \<Rightarrow> json option" where
  "prun st m [] = (case m of MDone v \<Rightarrow> Some v | _ \<Rightarrow> None)"
| "prun st m (t # ts) = (case pstep st m t of None \<Rightarrow> None | Some (st', m') \<Rightarrow> prun st' m' ts)"

definition json_parse :: "string \<Rightarrow> json_error + json" where
  "json_parse s =
     (case lex s of
        None \<Rightarrow> Inl JsonSyntaxError
      | Some ts \<Rightarrow> (case prun [] MValue ts of None \<Rightarrow> Inl JsonSyntaxError | Some v \<Rightarrow> Inr v))"

section \<open>The favourites list\<close>

fun json_string :: "json \<Rightarrow> string option" where
  "json_string (JStr s) = Some s"
| "json_string _ = None"

fun string_list :: "json \<Rightarrow> string list option" where
  "string_list (JArr vs) = those (map json_string vs)"
| "string_list _ = None"

datatype read_error = ParseFailed json_error | NotStringList json

definition parse_favorites :: "string \<Rightarrow> read_error + string list" where
  "parse_favorites s =
     (case json_parse s of
        Inl e \<Rightarrow> Inl (ParseFailed e)
      | Inr v \<Rightarrow> (case string_list v of None \<Rightarrow> Inl (NotStringList v) | Some xs \<Rightarrow> Inr xs))"

section \<open>Round trip\<close>

lemma hex_val_hex_digit: "n < 16 \<Longrightarrow> hex_val (hex_digit n) = Some n"
  by (auto simp: hex_val_def hex_digit_def Let_def)

lemma hex_val_zero: "hex_val CHR ''0'' = Some 0"
  by (simp add: hex_val_def)

lemma hex4_control: "n < 32 \<Longrightarrow> hex4 CHR ''0'' CHR ''0'' (hex_digit (n div 16)) (hex_digit (n mod 16)) = Some n"
  by (simp add: hex4_def hex_val_hex_digit hex_val_zero)

lemma parse_str_esc: "parse_str (json_esc_char c @ t) = map_option (apfst (Cons c)) (parse_str t)"
  by (auto simp: json_esc_char_def hex4_control simple_unescape_def)

lemma parse_str_quoted: "parse_str (concat (map json_esc_char s) @ CHR 0x22 # t) = Some (s, t)"
  by (induction s) (simp_all add: parse_str_esc)

lemma skip_ws_nonspace [simp]: "\<not> is_json_ws c \<Longrightarrow> skip_ws (c # t) = c # t"
  by (simp add: skip_ws_def)

lemma skip_ws_Nil [simp]: "skip_ws [] = []"
  by (simp add: skip_ws_def)

lemma json_join_map_quote:
  "json_join (map json_quote (x # xs)) = json_quote x @ concat (map (\<lambda>y. CHR '','' # json_quote y) xs)"
  by (induction xs arbitrary: x) auto

lemma lex_quoted: "lex (json_quote x @ t) = map_option (Cons (TStr x)) (lex t)"
  by (subst lex.simps) (simp add: json_quote_def is_json_ws_def parse_str_quoted)

lemma lex_comma: "lex (CHR '','' # t) = map_option (Cons TComma) (lex t)"
  by (subst lex.simps) (simp add: is_json_ws_def)

lemma lex_close: "lex (CHR '']'' # []) = Some [TRBrack]"
  by (simp add: lex.simps [of "CHR '']'' # []"] lex.simps [of "[]"] is_json_ws_def)

lemma lex_more:
  "lex (concat (map (\<lambda>y. CHR '','' # json_quote y) ys) @ CHR '']'' # []) =
     Some (concat (map (\<lambda>y. [TComma, TStr y]) ys) @ [TRBrack])"
  by (induction ys) (simp_all add: lex_close lex_comma lex_quoted)

lemma prun_more:
  "prun [FArr vs] MAfter (concat (map (\<lambda>y. [TComma, TStr y]) ys) @ [TRBrack]) =
     Some (JArr (rev vs @ map JStr ys))"
  by (induction ys arbitrary: vs) (simp_all add: pstep_def after_item_def start_value_def)

lemma those_map_json_string: "those (map (json_string \<circ> JStr) xs) = Some xs"
  by (induction xs) simp_all

lemma json_parse_stringify: "json_parse (json_stringify xs) = Inr (JArr (map JStr xs))"
proof (cases xs)
  case Nil
  then show ?thesis
    by (simp add: json_parse_def json_stringify_def lex.simps [of "CHR ''['' # _"] lex_close
        is_json_ws_def pstep_def start_value_def)
next
  case (Cons y ys)
  have "json_stringify (y # ys) = CHR ''['' # json_quote y @ concat (map (\<lambda>z. CHR '','' # json_quote z) ys) @ CHR '']'' # []"
    by (simp only: json_stringify_def json_join_map_quote) simp
  moreover have "lex (CHR ''['' # json_quote y @ concat (map (\<lambda>z. CHR '','' # json_quote z) ys) @ CHR '']'' # []) =
      Some (TLBrack # TStr y # concat (map (\<lambda>z. [TComma, TStr z]) ys) @ [TRBrack])"
    by (subst lex.simps) (simp add: is_json_ws_def lex_quoted lex_more)
  ultimately show ?thesis
    using Cons prun_more [of "[JStr y]" ys]
    by (simp add: json_parse_def pstep_def start_value_def)
qed

theorem json_roundtrip: "parse_favorites (json_stringify xs) = Inr xs"
  by (simp add: parse_favorites_def json_parse_stringify those_map_json_string)

lemma string_list_Some: "string_list v = Some xs \<Longrightarrow> v = JArr (map JStr xs)"
proof (cases v)
  case (JArr vs)
  moreover assume "string_list v = Some xs"
  ultimately have "those (map json_string vs) = Some xs" by simp
  then have "vs = map JStr xs"
  proof (induction vs arbitrary: xs)
    case (Cons w ws)
    then show ?case by (cases w) (auto split: option.splits)
  qed simp
  with JArr show ?thesis by simp
qed simp_all

lemma parse_favorites_Inr: "parse_favorites s = Inr xs \<Longrightarrow> json_parse s = Inr (JArr (map JStr xs))"
  by (auto simp: parse_favorites_def string_list_Some split: sum.splits option.splits)

lemma parse_favorites_empty_array [simp]: "parse_favorites ''[]'' = Inr []"
  using json_roundtrip [of "[]"] by (simp add: json_stringify_def)

end
