(* ===== verification/Cards.thy ===== *)
theory Cards
  imports Complex_Main Prelude
begin

text \<open>
  The card registry of \<open>src/script.js\<close> (line 13: \<open>cards\<close>, captured once at start-up)
  and the numeric sort of the pipeline (lines 86--95). A card is the data the script reads
  from a \<open>.product-card\<close> element: \<open>dataset.id\<close>, \<open>dataset.category\<close>,
  \<open>parseFloat(dataset.price)\<close>, the text of its \<open>.product-title\<close> (absent: \<open>None\<close>) and
  the \<open>data-id\<close> of its \<open>.btn-fav\<close> control (absent: \<open>None\<close>).
  \<open>parseFloat\<close> yields a JavaScript number; \<open>jsnum\<close> keeps the values that matter for
  comparison: finite values (as rationals), the two infinities and \<open>NaN\<close>.
  \<open>Array.prototype.sort(cmp)\<close> is stable (ECMAScript 2019) and, for a consistent
  comparator, has exactly one possible result; \<open>js_sort\<close> is a stable insertion sort that
  treats a \<open>NaN\<close> comparison as \<open>+0\<close>, as \<open>SortCompare\<close> does. With a \<open>NaN\<close>
  price the comparator is inconsistent and the engine's order is implementation-defined;
  \<open>js_sort\<close> then fixes one of the admissible results.
\<close>

section \<open>JavaScript numbers\<close>

datatype jsnum = Fin rat | PosInf | NegInf | NaN

text \<open>\<open>a - b\<close> on JavaScript numbers.\<close>

fun js_sub :: "jsnum \<Rightarrow> jsnum \<Rightarrow> jsnum" where
  "js_sub NaN _ = NaN"
| "js_sub _ NaN = NaN"
| "js_sub (Fin a) (Fin b) = Fin (a - b)"
| "js_sub PosInf PosInf = NaN"
| "js_sub PosInf _ = PosInf"
| "js_sub NegInf NegInf = NaN"
| "js_sub NegInf _ = NegInf"
| "js_sub (Fin _) PosInf = NegInf"
| "js_sub (Fin _) NegInf = PosInf"

text \<open>\<open>SortCompare\<close>: the comparator's value, \<open>NaN\<close> read as \<open>+0\<close>; the sort keeps
  \<open>x\<close> before \<open>y\<close> when the value is not positive.\<close>

fun sort_compare_le0 :: "jsnum \<Rightarrow> bool" where
  "sort_compare_le0 (Fin r) \<longleftrightarrow> r \<le> 0"
| "sort_compare_le0 PosInf \<longleftrightarrow> False"
| "sort_compare_le0 NegInf \<longleftrightarrow> True"
| "sort_compare_le0 NaN \<longleftrightarrow> True"

text \<open>The numeric order of non-\<open>NaN\<close> numbers as a key into a linear order.\<close>

fun num_key :: "jsnum \<Rightarrow> int \<times> rat" where
  "num_key NegInf = (-1, 0)"
| "num_key (Fin r) = (0, r)"
| "num_key PosInf = (1, 0)"
| "num_key NaN = (2, 0)"

section \<open>Cards\<close>

text \<open>A \<open>.product-card\<close>: \<open>data-id\<close>, \<open>data-category\<close>, the
  \<open>parseFloat\<close> of \<open>data-price\<close>, the text of its \<open>.product-title\<close> (\<open>None\<close>
  without one), and the \<open>data-id\<close> of its \<open>.btn-fav\<close> (\<open>None\<close> without a
  button; a button is assumed to carry a \<open>data-id\<close>).\<close>

record card =
  cid :: js_string
  category :: js_string
  price :: jsnum
  title :: "js_string option"
  fav_btn :: "js_string option"

section \<open>Array.prototype.sort with a comparator\<close>

fun js_insert :: "('a \<Rightarrow> 'a \<Rightarrow> jsnum) \<Rightarrow> 'a \<Rightarrow> 'a list \<Rightarrow> 'a list" where
  "js_insert cmp x [] = [x]"
| "js_insert cmp x (y # ys) =
     (if sort_compare_le0 (cmp x y) then x # y # ys else y # js_insert cmp x ys)"

definition js_sort :: "('a \<Rightarrow> 'a \<Rightarrow> jsnum) \<Rightarrow> 'a list \<Rightarrow> 'a list" where
  "js_sort cmp xs = foldr (js_insert cmp) xs []"

text \<open>The comparators of lines 88--89 and 92--93.\<close>

definition price_asc :: "card \<Rightarrow> card \<Rightarrow> jsnum" where
  "price_asc a b = js_sub (price a) (price b)"

definition price_desc :: "card \<Rightarrow> card \<Rightarrow> jsnum" where
  "price_desc a b = js_sub (price b) (price a)"

definition asc_key :: "card \<Rightarrow> int \<times> rat" where
  "asc_key c = num_key (price c)"

definition desc_key :: "card \<Rightarrow> int \<times> rat" where
  "desc_key c = (case num_key (price c) of (t, r) \<Rightarrow> (- t, - r))"

definition no_nan :: "card list \<Rightarrow> bool" where
  "no_nan cs \<longleftrightarrow> (\<forall>c \<in> set cs. price c \<noteq> NaN)"

section \<open>The comparator agrees with the numeric order\<close>

lemma le0_js_sub_iff:
  "a \<noteq> NaN \<Longrightarrow> b \<noteq> NaN \<Longrightarrow> sort_compare_le0 (js_sub a b) \<longleftrightarrow> num_key a \<le> num_key b"
  by (cases a; cases b) auto

lemma price_asc_le0_iff:
  "price a \<noteq> NaN \<Longrightarrow> price b \<noteq> NaN \<Longrightarrow> sort_compare_le0 (price_asc a b) \<longleftrightarrow> asc_key a \<le> asc_key b"
  by (simp add: price_asc_def asc_key_def le0_js_sub_iff)

lemma price_desc_le0_iff:
  "price a \<noteq> NaN \<Longrightarrow> price b \<noteq> NaN \<Longrightarrow> sort_compare_le0 (price_desc a b) \<longleftrightarrow> desc_key a \<le> desc_key b"
  by (simp add: price_desc_def desc_key_def le0_js_sub_iff split: prod.splits)

section \<open>Equivalence with the library's stable sort\<close>

lemma js_insert_insort_key:
  assumes "\<forall>y \<in> set ys. sort_compare_le0 (cmp x y) \<longleftrightarrow> f x \<le> f y"
  shows "js_insert cmp x ys = insort_key f x ys"
  using assms by (induction ys) auto

lemma js_sort_sort_key:
  assumes "\<forall>x \<in> set xs. \<forall>y \<in> set xs. sort_compare_le0 (cmp x y) \<longleftrightarrow> f x \<le> f y"
  shows "js_sort cmp xs = sort_key f xs"
  using assms
proof (induction xs)
  case Nil
  then show ?case by (simp add: js_sort_def)
next
  case (Cons x xs)
  then have IH: "js_sort cmp xs = sort_key f xs" by simp
  have "\<forall>y \<in> set (sort_key f xs). sort_compare_le0 (cmp x y) \<longleftrightarrow> f x \<le> f y"
    using Cons.prems by simp
  then have "js_insert cmp x (sort_key f xs) = insort_key f x (sort_key f xs)"
    by (rule js_insert_insort_key)
  with IH show ?case by (simp add: js_sort_def)
qed

lemma js_sort_price_asc:
  "no_nan cs \<Longrightarrow> js_sort price_asc cs = sort_key asc_key cs"
  by (rule js_sort_sort_key) (simp add: no_nan_def price_asc_le0_iff)

lemma js_sort_price_desc:
  "no_nan cs \<Longrightarrow> js_sort price_desc cs = sort_key desc_key cs"
  by (rule js_sort_sort_key) (simp add: no_nan_def price_desc_le0_iff)

text \<open>Whatever the comparator, the sort only reorders.\<close>

lemma mset_js_insert: "mset (js_insert cmp x ys) = add_mset x (mset ys)"
  by (induction ys) auto

lemma mset_js_sort: "mset (js_sort cmp xs) = mset xs"
  by (induction xs) (simp_all add: js_sort_def mset_js_insert)

lemma desc_key_le_iff: "desc_key a \<le> desc_key b \<longleftrightarrow> asc_key b \<le> asc_key a"
  by (simp add: desc_key_def asc_key_def split: prod.splits)

section \<open>Sample cards\<close>

text \<open>The two cards of the scenario in spec section 8, used by the witnesses.\<close>

abbreviation demo_phone :: card where
  "demo_phone \<equiv> \<lparr>cid = ''1'', category = ''a'', price = Fin 10, title = Some ''Phone X'', fav_btn = Some ''1''\<rparr>"

abbreviation demo_case :: card where
  "demo_case \<equiv> \<lparr>cid = ''2'', category = ''b'', price = Fin 5, title = Some ''Case'', fav_btn = Some ''2''\<rparr>"

end
