(* ===== verification/State.thy ===== *)
theory State
  imports Json Cards
begin

text \<open>
  The state of \<open>src/script.js\<close>. Everything the \<open>DOMContentLoaded\<close> handler
  captures and mutates is one record \<open>app\<close>: its closure variables (\<open>currentSort\<close>,
  \<open>currentFilter\<close>, \<open>favorites\<close>, \<open>currentPage\<close>, \<open>grid\<close>, lines 2 and 16--19), the
  parts of the document it writes (the children of \<open>#products-grid\<close>, the classes and
  glyphs it sets, the badge), \<open>localStorage\<close>, and the browser's timer queue with its
  clock. The parts of the document it only reads are the record \<open>dom\<close>: they are fixed
  when the script starts (lines 3--13).
\<close>

section \<open>The document as the script finds it\<close>

record link =
  href :: "js_string option"
  in_nav :: bool
  active0 :: bool

text \<open>
  \<^item> \<open>cards0\<close>: \<open>document.querySelectorAll('.product-card')\<close>, in document order,
    initially the children of \<open>#products-grid\<close>;
  \<^item> \<open>page_ids\<close>: the ids of the \<open>.page\<close> sections; \<open>elem_ids\<close>: the ids of all
    elements, which \<open>getElementById\<close> searches (line 24); \<open>init_active\<close>: the ids of
    the elements whose markup carries the class \<open>active\<close>;
  \<^item> \<open>links\<close>: the anchors of the document that matter to the script, each with
    its \<open>href\<close> attribute (\<open>None\<close> when absent), \<open>in_nav\<close> when it matches
    \<open>nav a, footer .footer-nav a\<close> (line 9), and \<open>active0\<close> when its markup carries
    the class \<open>active\<close>;
  \<^item> \<open>glyphs0\<close>: the cards whose \<open>.btn-fav\<close> carries the class \<open>active\<close> in
    the markup;
  \<^item> \<open>sort_btns\<close>, \<open>filter_btns\<close>: the \<open>data-sort\<close> and \<open>data-category\<close> of the
    \<open>.sort-btn\<close> and \<open>.filter-btn\<close> elements;
  \<^item> the optional elements: the search box and its value when the script starts, the
    favourites counter and badge, \<open>#products-grid\<close>, the \<open>go-to-catalog\<close> button.
\<close>

record dom =
  cards0 :: "card list"
  page_ids :: "js_string list"
  elem_ids :: "js_string list"
  init_active :: "js_string list"
  links :: "link list"
  glyphs0 :: "card list"
  sort_btns :: "js_string list"
  filter_btns :: "js_string list"
  has_search :: bool
  search_init :: js_string
  has_count :: bool
  has_badge :: bool
  has_grid :: bool
  has_go_btn :: bool

section \<open>The state the script keeps\<close>

datatype color = Accent | Neutral

text \<open>A pending \<open>setTimeout\<close> callback: the deferred render of lines 100--115 with the
  cards it captured, or the start-up re-application of lines 224--227.\<close>

datatype task = Render "card list" | InitApply

record app =
  cur_sort :: js_string
  cur_filter :: js_string
  favorites :: "js_string list"
  cur_page :: js_string
  search_val :: js_string
  grid_bound :: bool
  store :: storage
  grid_children :: "card list"
  faded :: "card set"
  fav_shown :: "card set"
  count_shown :: "nat option"
  badge_shown :: "(nat \<times> color) option"
  active_ids :: "js_string set"
  link_active :: "bool list"
  filter_active :: "bool list"
  sort_active :: "bool list"
  timers :: "(nat \<times> task) list"
  clock :: nat

section \<open>Timers\<close>

text \<open>The timer queue is ordered by due time; a timer joins behind those due at the same
  time or earlier, so equal delays fire in the order they were scheduled.\<close>

fun insert_timer :: "nat \<times> task \<Rightarrow> (nat \<times> task) list \<Rightarrow> (nat \<times> task) list" where
  "insert_timer t [] = [t]"
| "insert_timer t (u # us) = (if fst t < fst u then t # u # us else u # insert_timer t us)"

definition schedule :: "nat \<Rightarrow> task \<Rightarrow> app \<Rightarrow> app" where
  "schedule delay tk s = s\<lparr>timers := insert_timer (clock s + delay, tk) (timers s)\<rparr>"

lemma insert_timer_not_Nil [simp]: "insert_timer t ts \<noteq> []"
  by (cases ts) auto

lemma set_insert_timer [simp]: "set (insert_timer t ts) = insert t (set ts)"
  by (induction ts) auto

lemma length_insert_timer [simp]: "length (insert_timer t ts) = Suc (length ts)"
  by (induction ts) auto

lemma sorted_insert_timer: "sorted (map fst ts) \<Longrightarrow> sorted (map fst (insert_timer t ts))"
  by (induction ts) (auto simp: not_less)

text \<open>A timer due no earlier than every pending one goes last.\<close>

lemma insert_timer_last: "\<forall>u \<in> set ts. fst u \<le> fst t \<Longrightarrow> insert_timer t ts = ts @ [t]"
  by (induction ts) auto

section \<open>A sample page\<close>

text \<open>A page with both sample cards, a home and a catalog section, two navigation
  links, the usual buttons and every optional element; and a state on it with a given
  list of favourites, as start-up leaves it when the store is empty and the page is home.\<close>

abbreviation demo_dom :: dom where
  "demo_dom \<equiv>
     \<lparr>cards0 = [demo_phone, demo_case], page_ids = [''home'', ''catalog''],
      elem_ids = [''home'', ''catalog'', ''products-grid'', ''search-input''], init_active = [''home''],
      links = [\<lparr>href = Some ''#home'', in_nav = True, active0 = False\<rparr>,
               \<lparr>href = Some ''#catalog'', in_nav = True, active0 = False\<rparr>], glyphs0 = [],
      sort_btns = [''default'', ''price-asc'', ''price-desc''], filter_btns = [''all'', ''a'', ''b''],
      has_search = True, search_init = [], has_count = True, has_badge = True, has_grid = True,
      has_go_btn = True\<rparr>"

abbreviation demo_app :: "js_string list \<Rightarrow> app" where
  "demo_app favs \<equiv>
     \<lparr>cur_sort = ''default'', cur_filter = ''all'', favorites = favs, cur_page = ''home'',
      search_val = [], grid_bound = False, store = Map.empty,
      grid_children = [demo_phone, demo_case], faded = {}, fav_shown = {},
      count_shown = None, badge_shown = None, active_ids = {''home''},
      link_active = [True, False], filter_active = [True, False, False],
      sort_active = [True, False, False], timers = [], clock = 0\<rparr>"

end
