(* ===== verification/Favorites.thy ===== *)
theory Favorites
  imports State
begin

text \<open>
  The favourites manager of \<open>src/script.js\<close>: \<open>updateFavoritesCount\<close> (lines 42--49),
  \<open>toggleFavorite\<close> (lines 52--62) and \<open>updateUI\<close> (lines 119--139), which
  \<open>toggleFavorite\<close> calls. The favourites are a list of ids in insertion order; a toggle
  appends an absent id or splices out the first occurrence of a present one, writes the
  list to \<open>localStorage\<close> as JSON, and refreshes the badge and every favourite button
  in the document. The lemmas show that the toggle keeps the list free of duplicates,
  that two toggles restore the membership (and, for an absent id, the list and its stored
  text), and that a present id moves to the end of the list, so that the stored text is
  not restored.
\<close>

section \<open>Operations\<close>

text \<open>Lines 42--49: the counter text and the badge's label and colour
  (\<open>#E74C3C\<close> when positive, \<open>#95A5A6\<close> otherwise), each only if its element exists.\<close>

definition updateFavoritesCount :: "dom \<Rightarrow> app \<Rightarrow> app" where
  "updateFavoritesCount d s =
     (let n = length (favorites s) in
      s\<lparr>count_shown := (if has_count d then Some n else count_shown s),
        badge_shown := (if has_badge d then Some (n, if 0 < n then Accent else Neutral)
                        else badge_shown s)\<rparr>)"

text \<open>Lines 128--138, one button: the \<open>.btn-fav\<close> of a card attached to the document
  (a child of the grid) shows the active glyph exactly when its \<open>data-id\<close> is a
  favourite. The buttons of cards the last render detached are not in the document and
  keep their glyph.\<close>

definition btn_glyphs :: "js_string list \<Rightarrow> card list \<Rightarrow> card set \<Rightarrow> card set" where
  "btn_glyphs favs attached sh =
     {c \<in> sh. c \<notin> set attached \<or> fav_btn c = None}
     \<union> {c \<in> set attached. case fav_btn c of None \<Rightarrow> False | Some b \<Rightarrow> b \<in> set favs}"

text \<open>Lines 119--139: \<open>classList.toggle('active', ...)\<close> on every filter and sort button,
  then the favourite buttons.\<close>

definition updateUI :: "dom \<Rightarrow> app \<Rightarrow> app" where
  "updateUI d s =
     s\<lparr>filter_active := map (\<lambda>v. v = cur_filter s) (filter_btns d),
       sort_active := map (\<lambda>v. v = cur_sort s) (sort_btns d),
       fav_shown := btn_glyphs (favorites s) (grid_children s) (fav_shown s)\<rparr>"

text \<open>Lines 53--58: the new list.\<close>

definition toggled :: "js_string list \<Rightarrow> js_string \<Rightarrow> js_string list" where
  "toggled favs i =
     (let idx = index_of favs i in if idx = -1 then favs @ [i] else js_splice1 favs idx)"

text \<open>Lines 52--62.\<close>

definition toggleFavorite :: "dom \<Rightarrow> js_string \<Rightarrow> app \<Rightarrow> app" where
  "toggleFavorite d i s =
     (let favs = toggled (favorites s) i;
          s1 = s\<lparr>favorites := favs, store := (store s)(key_favorites \<mapsto> json_stringify favs)\<rparr>
      in updateUI d (updateFavoritesCount d s1))"

section \<open>The list of favourites\<close>

lemma toggled_absent [simp]: "i \<notin> set favs \<Longrightarrow> toggled favs i = favs @ [i]"
  by (simp add: toggled_def index_of_neg)

lemma toggled_present [simp]: "i \<in> set favs \<Longrightarrow> toggled favs i = remove1 i favs"
  by (simp add: toggled_def index_of_neg js_splice1_index_of)

lemma distinct_toggled: "distinct favs \<Longrightarrow> distinct (toggled favs i)"
  by (cases "i \<in> set favs") simp_all

lemma set_toggled: "distinct favs \<Longrightarrow> set (toggled favs i) = (if i \<in> set favs then set favs - {i} else insert i (set favs))"
  by (cases "i \<in> set favs") auto

lemma toggled_twice_present:
  "distinct favs \<Longrightarrow> i \<in> set favs \<Longrightarrow> toggled (toggled favs i) i = remove1 i favs @ [i]"
  by (simp add: distinct_remove1_not_in)

section \<open>Effects of a toggle on the state\<close>

lemma toggleFavorite_favorites [simp]: "favorites (toggleFavorite d i s) = toggled (favorites s) i"
  by (simp add: toggleFavorite_def updateUI_def updateFavoritesCount_def Let_def)

lemma toggleFavorite_store [simp]:
  "store (toggleFavorite d i s) = (store s)(key_favorites \<mapsto> json_stringify (toggled (favorites s) i))"
  by (simp add: toggleFavorite_def updateUI_def updateFavoritesCount_def Let_def)

lemma toggleFavorite_grid [simp]: "grid_children (toggleFavorite d i s) = grid_children s"
  by (simp add: toggleFavorite_def updateUI_def updateFavoritesCount_def Let_def)

lemma json_stringify_nonempty [simp]: "json_stringify xs \<noteq> []"
  by (simp add: json_stringify_def)

section \<open>Properties of the toggle\<close>

text \<open>C10. Toggling an id that is not a favourite twice restores the list of favourites
  and writes its original serialisation back to the store.\<close>

theorem toggleFavorite_twice_absent:
  assumes "i \<notin> set (favorites s)"
  shows "favorites (toggleFavorite d i (toggleFavorite d i s)) = favorites s \<and>
         store (toggleFavorite d i (toggleFavorite d i s)) key_favorites = Some (json_stringify (favorites s))"
  using assms by simp

theorem toggleFavorite_twice_absent_witness:
  "''1'' \<notin> set (favorites (demo_app [''2''])) \<and>
   favorites (toggleFavorite demo_dom ''1'' (toggleFavorite demo_dom ''1'' (demo_app [''2'']))) = [''2''] \<and>
   store (toggleFavorite demo_dom ''1'' (toggleFavorite demo_dom ''1'' (demo_app [''2'']))) key_favorites
     = Some (json_stringify [''2''])"
  using toggleFavorite_twice_absent [of "''1''" "demo_app [''2'']" demo_dom] by simp

text \<open>C11. When the list of favourites has no duplicates, toggling a favourite twice does
  not restore the list: the id is removed and then appended, so it moves to the end.\<close>

theorem toggleFavorite_twice_present:
  assumes "distinct (favorites s)" and "i \<in> set (favorites s)"
  shows "favorites (toggleFavorite d i (toggleFavorite d i s)) = remove1 i (favorites s) @ [i]"
  using assms by (simp add: toggled_twice_present)

theorem toggleFavorite_twice_present_witness:
  "distinct (favorites (demo_app [''1'', ''2''])) \<and> ''1'' \<in> set (favorites (demo_app [''1'', ''2''])) \<and>
   favorites (toggleFavorite demo_dom ''1'' (toggleFavorite demo_dom ''1'' (demo_app [''1'', ''2''])))
     = [''2'', ''1'']"
  using toggleFavorite_twice_present [of "demo_app [''1'', ''2'']" "''1''" demo_dom] by simp

text \<open>C12. Two toggles of the same id restore the set of favourites, when the list has no
  duplicates.\<close>

theorem toggleFavorite_twice_membership:
  assumes "distinct (favorites s)"
  shows "set (favorites (toggleFavorite d i (toggleFavorite d i s))) = set (favorites s)"
  using assms by (auto simp: set_toggled distinct_toggled)

theorem toggleFavorite_twice_membership_witness:
  "distinct (favorites (demo_app [''1'', ''2''])) \<and>
   set (favorites (toggleFavorite demo_dom ''1'' (toggleFavorite demo_dom ''1'' (demo_app [''1'', ''2'']))))
     = set [''1'', ''2'']"
  using toggleFavorite_twice_membership [of "demo_app [''1'', ''2''] " demo_dom "''1''"] by simp

text \<open>C13. A toggle keeps the list of favourites free of duplicates.\<close>

theorem toggleFavorite_distinct:
  assumes "distinct (favorites s)"
  shows "distinct (favorites (toggleFavorite d i s))"
  using assms by (simp add: distinct_toggled)

theorem toggleFavorite_distinct_witness:
  "distinct (favorites (demo_app [''1''])) \<and> distinct (favorites (toggleFavorite demo_dom ''2'' (demo_app [''1''])))"
  using toggleFavorite_distinct [of "demo_app [''1'']" demo_dom "''2''"] by simp

text \<open>C14. Write-through: after a toggle, reading the favourites back from the store the way
  start-up does (line 18) gives the new list.\<close>

theorem toggleFavorite_persists:
  "parse_favorites (get_or (store (toggleFavorite d i s)) key_favorites ''[]'') = Inr (favorites (toggleFavorite d i s))"
  by (simp add: json_roundtrip)

text \<open>C15. After a toggle, the button of every card in the grid shows the active glyph
  exactly when its id is a favourite.\<close>

theorem toggleFavorite_glyphs:
  assumes "c \<in> set (grid_children s)" and "fav_btn c = Some b"
  shows "c \<in> fav_shown (toggleFavorite d i s) \<longleftrightarrow> b \<in> set (favorites (toggleFavorite d i s))"
  using assms
  by (simp add: toggleFavorite_def updateUI_def updateFavoritesCount_def btn_glyphs_def Let_def)

theorem toggleFavorite_glyphs_witness:
  "demo_phone \<in> set (grid_children (demo_app [])) \<and> fav_btn demo_phone = Some ''1'' \<and>
   demo_phone \<in> fav_shown (toggleFavorite demo_dom ''1'' (demo_app []))"
proof -
  have "demo_phone \<in> fav_shown (toggleFavorite demo_dom ''1'' (demo_app [])) \<longleftrightarrow>
        ''1'' \<in> set (favorites (toggleFavorite demo_dom ''1'' (demo_app [])))"
    by (rule toggleFavorite_glyphs) simp_all
  then show ?thesis by simp
qed

text \<open>C16. After a toggle the badge shows the number of favourites, in the accent colour
  exactly when there is at least one.\<close>

theorem toggleFavorite_badge:
  assumes "has_badge d"
  shows "badge_shown (toggleFavorite d i s) =
           Some (length (favorites (toggleFavorite d i s)),
                 if favorites (toggleFavorite d i s) = [] then Neutral else Accent)"
  using assms by (simp add: toggleFavorite_def updateUI_def updateFavoritesCount_def Let_def)

theorem toggleFavorite_badge_witness:
  "has_badge demo_dom \<and> badge_shown (toggleFavorite demo_dom ''1'' (demo_app [])) = Some (1, Accent)"
  using toggleFavorite_badge [of demo_dom "''1''" "demo_app []"] by simp

text \<open>C29. A list read from the store may hold an id more than once (line 18 does not
  check); a toggle then splices out only the first occurrence and the id stays a
  favourite.\<close>

theorem toggleFavorite_duplicate_stays:
  assumes "2 \<le> count (mset (favorites s)) i"
  shows "i \<in> set (favorites (toggleFavorite d i s))"
proof -
  have "i \<in> set (favorites s)" using assms by (metis count_mset_0_iff not_numeral_le_zero)
  moreover have "count (mset (remove1 i (favorites s))) i \<noteq> 0" using assms by simp
  ultimately show ?thesis by (metis count_mset_0_iff toggleFavorite_favorites toggled_present)
qed

theorem toggleFavorite_duplicate_stays_witness:
  "2 \<le> count (mset (favorites (demo_app [''1'', ''1'']))) ''1'' \<and>
   ''1'' \<in> set (favorites (toggleFavorite demo_dom ''1'' (demo_app [''1'', ''1''])))"
  using toggleFavorite_duplicate_stays [of "demo_app [''1'', ''1'']" "''1''" demo_dom] by simp

text \<open>C30. The toggle of lines 53--58, written with \<open>indexOf\<close>, \<open>push\<close> and
  \<open>splice\<close>, equals the reference definition: remove the first occurrence of a present
  id, append an absent one.\<close>

theorem toggled_reference:
  "toggled favs i = (if i \<in> set favs then remove1 i favs else favs @ [i])"
  by (simp add: toggled_def index_of_neg js_splice1_index_of)

end
