(* ===== verification/Pipeline.thy ===== *)
theory Pipeline
  imports State
begin

text \<open>
  The filter-sort-render pipeline, \<open>applyFiltersAndSort\<close> of \<open>src/script.js\<close>
  (lines 65--116). \<open>visible_cards\<close> is the computation of lines 68--95 (search, then
  category, then price sort) on the registry; \<open>applyFiltersAndSort\<close> adds the guard of
  line 66, the \<open>fade-out\<close> class of line 98 and the \<open>setTimeout\<close> of line 100;
  \<open>render\<close> is the deferred callback of lines 101--114, run when its timer fires.
  The lemmas give the membership of the visible list exactly, its order (sorted by price,
  stable, or registry order), and a refinement: the pipeline equals one library filter
  followed by the library's stable sort \<open>sort_key\<close>.
\<close>

section \<open>The computation of the visible cards\<close>

text \<open>\<open>card.querySelector('.product-title')?.textContent.toLowerCase() || ''\<close>\<close>

definition title_text :: "card \<Rightarrow> js_string" where
  "title_text c = (case title c of None \<Rightarrow> [] | Some t \<Rightarrow> js_lower t)"

text \<open>Lines 71--77. The argument is \<open>searchInput?.value\<close>: \<open>None\<close> without a search box.\<close>

definition search_step :: "js_string option \<Rightarrow> card list \<Rightarrow> card list" where
  "search_step q cs =
     (case q of
        None \<Rightarrow> cs
      | Some v \<Rightarrow>
          if js_trim v \<noteq> [] then
            (let query = js_lower (js_trim v) in filter (\<lambda>c. js_includes (title_text c) query) cs)
          else cs)"

text \<open>Lines 80--84.\<close>

definition category_step :: "js_string \<Rightarrow> card list \<Rightarrow> card list" where
  "category_step f cs = (if f \<noteq> ''all'' then filter (\<lambda>c. category c = f) cs else cs)"

text \<open>Lines 87--95: any other sort mode leaves the order alone.\<close>

definition sort_step :: "js_string \<Rightarrow> card list \<Rightarrow> card list" where
  "sort_step srt cs =
     (if srt = ''price-asc'' then js_sort price_asc cs
      else if srt = ''price-desc'' then js_sort price_desc cs
      else cs)"

definition visible_cards :: "js_string option \<Rightarrow> js_string \<Rightarrow> js_string \<Rightarrow> card list \<Rightarrow> card list" where
  "visible_cards q f srt cs = sort_step srt (category_step f (search_step q cs))"

section \<open>The stateful pipeline\<close>

definition search_arg :: "dom \<Rightarrow> app \<Rightarrow> js_string option" where
  "search_arg d s = (if has_search d then Some (search_val s) else None)"

text \<open>Lines 65--116: without a bound grid nothing happens; otherwise every card of the
  registry gets \<open>fade-out\<close> and the render of the cards computed now is scheduled
  200 ms later.\<close>

definition applyFiltersAndSort :: "dom \<Rightarrow> app \<Rightarrow> app" where
  "applyFiltersAndSort d s =
     (if \<not> grid_bound s then s
      else
        (let vs = visible_cards (search_arg d s) (cur_filter s) (cur_sort s) (cards0 d)
         in schedule 200 (Render vs) (s\<lparr>faded := faded s \<union> set (cards0 d)\<rparr>)))"

text \<open>Lines 102--112, one card: its \<open>.btn-fav\<close> shows the active glyph exactly when the
  card's \<open>data-id\<close> is a favourite at the time the callback runs.\<close>

fun render_glyphs :: "js_string list \<Rightarrow> card list \<Rightarrow> card set \<Rightarrow> card set" where
  "render_glyphs favs [] sh = sh"
| "render_glyphs favs (c # cs) sh =
     render_glyphs favs cs
       (if fav_btn c = None then sh else if cid c \<in> set favs then insert c sh else sh - {c})"

text \<open>Lines 101--114: empty the grid, then append the captured cards in order.\<close>

definition render :: "card list \<Rightarrow> app \<Rightarrow> app" where
  "render vs s =
     s\<lparr>grid_children := vs, fav_shown := render_glyphs (favorites s) vs (fav_shown s)\<rparr>"

section \<open>Membership\<close>

definition search_match :: "js_string option \<Rightarrow> card \<Rightarrow> bool" where
  "search_match q c =
     (case q of
        None \<Rightarrow> True
      | Some v \<Rightarrow> js_trim v = [] \<or> sublist (js_lower (js_trim v)) (title_text c))"

definition card_matches :: "js_string option \<Rightarrow> js_string \<Rightarrow> card \<Rightarrow> bool" where
  "card_matches q f c \<longleftrightarrow> search_match q c \<and> (f = ''all'' \<or> category c = f)"

lemma search_step_filter: "search_step q cs = filter (search_match q) cs"
  by (cases q) (auto simp: search_step_def search_match_def js_includes_sublist Let_def intro!: filter_cong)

lemma category_step_filter: "category_step f cs = filter (\<lambda>c. f = ''all'' \<or> category c = f) cs"
  by (simp add: category_step_def)

lemma filtered_cards: "category_step f (search_step q cs) = filter (card_matches q f) cs"
  by (simp add: search_step_filter category_step_filter card_matches_def [abs_def])

lemma mset_sort_step: "mset (sort_step srt cs) = mset cs"
  by (simp add: sort_step_def mset_js_sort)

lemma set_visible_cards: "set (visible_cards q f srt cs) = {c \<in> set cs. card_matches q f c}"
  by (metis visible_cards_def filtered_cards mset_sort_step set_filter set_mset_mset)

section \<open>Abstract specification and refinement\<close>

text \<open>What the pipeline promises (spec section 4.4): keep the cards that match the search
  and the category, in registry order, then sort them stably by price when a price sort is
  selected.\<close>

definition spec_visible :: "js_string option \<Rightarrow> js_string \<Rightarrow> js_string \<Rightarrow> card list \<Rightarrow> card list" where
  "spec_visible q f srt cs =
     (let ys = filter (card_matches q f) cs in
      if srt = ''price-asc'' then sort_key asc_key ys
      else if srt = ''price-desc'' then sort_key desc_key ys
      else ys)"

lemma no_nan_filter: "no_nan cs \<Longrightarrow> no_nan (filter P cs)"
  by (simp add: no_nan_def)

lemma visible_eq_spec:
  assumes "no_nan cs"
  shows "visible_cards q f srt cs = spec_visible q f srt cs"
proof -
  have nn: "no_nan (filter (card_matches q f) cs)"
    using assms by (rule no_nan_filter)
  show ?thesis
    by (simp add: visible_cards_def spec_visible_def filtered_cards sort_step_def
        js_sort_price_asc [OF nn] js_sort_price_desc [OF nn])
qed

lemma sorted_desc_key_conv:
  "sorted (map desc_key xs) \<Longrightarrow> sorted_wrt (\<lambda>a b. asc_key b \<le> asc_key a) xs"
  by (simp add: sorted_map desc_key_le_iff)

text \<open>C1. Refinement: on a registry without \<open>NaN\<close> prices, the pipeline of lines 68--95
  is the abstract specification: filter by search and category, then the library's stable
  sort by price.\<close>

theorem visible_cards_refines:
  assumes "no_nan cs"
  shows "visible_cards q f srt cs = spec_visible q f srt cs"
  using assms by (rule visible_eq_spec)

theorem visible_cards_refines_witness:
  "no_nan [demo_phone, demo_case] \<and>
   visible_cards None ''all'' ''price-asc'' [demo_phone, demo_case]
     = spec_visible None ''all'' ''price-asc'' [demo_phone, demo_case]"
proof -
  have nn: "no_nan [demo_phone, demo_case]" by (simp add: no_nan_def)
  show ?thesis using nn visible_cards_refines [OF nn] by simp
qed

text \<open>C2. Sort correctness, ascending: with \<open>price-asc\<close> the rendered prices never
  decrease.\<close>

theorem visible_sorted_asc:
  assumes "srt = ''price-asc''" and "no_nan cs"
  shows "sorted (map asc_key (visible_cards q f srt cs))"
  using assms by (simp add: visible_eq_spec spec_visible_def)

theorem visible_sorted_asc_witness:
  "''price-asc'' = ''price-asc'' \<and> no_nan [demo_phone, demo_case] \<and>
   sorted (map asc_key (visible_cards None ''all'' ''price-asc'' [demo_phone, demo_case]))"
proof -
  have nn: "no_nan [demo_phone, demo_case]" by (simp add: no_nan_def)
  show ?thesis using nn visible_sorted_asc [OF refl nn] by simp
qed

text \<open>C3. Sort correctness, descending: with \<open>price-desc\<close> the rendered prices never
  increase.\<close>

theorem visible_sorted_desc:
  assumes "srt = ''price-desc''" and "no_nan cs"
  shows "sorted_wrt (\<lambda>a b. asc_key b \<le> asc_key a) (visible_cards q f srt cs)"
  using assms by (simp add: visible_eq_spec spec_visible_def sorted_desc_key_conv)

theorem visible_sorted_desc_witness:
  "''price-desc'' = ''price-desc'' \<and> no_nan [demo_case, demo_phone] \<and>
   sorted_wrt (\<lambda>a b. asc_key b \<le> asc_key a)
     (visible_cards None ''all'' ''price-desc'' [demo_case, demo_phone])"
proof -
  have nn: "no_nan [demo_case, demo_phone]" by (simp add: no_nan_def)
  show ?thesis using nn visible_sorted_desc [OF refl nn] by simp
qed

text \<open>C4. Stability: with \<open>price-asc\<close>, cards of equal price keep the order they have in
  the registry.\<close>

theorem visible_stable_asc:
  assumes "srt = ''price-asc''" and "no_nan cs"
  shows "filter (\<lambda>c. asc_key c = k) (visible_cards q f srt cs)
           = filter (\<lambda>c. card_matches q f c \<and> asc_key c = k) cs"
  using assms by (simp add: visible_eq_spec spec_visible_def sort_key_stable)

theorem visible_stable_asc_witness:
  "''price-asc'' = ''price-asc'' \<and> no_nan [demo_phone, demo_phone\<lparr>cid := ''3''\<rparr>] \<and>
   filter (\<lambda>c. asc_key c = (0, 10))
     (visible_cards None ''all'' ''price-asc'' [demo_phone, demo_phone\<lparr>cid := ''3''\<rparr>])
   = filter (\<lambda>c. card_matches None ''all'' c \<and> asc_key c = (0, 10)) [demo_phone, demo_phone\<lparr>cid := ''3''\<rparr>]"
proof -
  have nn: "no_nan [demo_phone, demo_phone\<lparr>cid := ''3''\<rparr>]" by (simp add: no_nan_def)
  show ?thesis using nn visible_stable_asc [OF refl nn] by simp
qed

text \<open>C5. Default order: with any sort mode other than the two price sorts the visible
  cards are the matching cards in registry order.\<close>

theorem visible_default_order:
  assumes "srt \<noteq> ''price-asc''" and "srt \<noteq> ''price-desc''"
  shows "visible_cards q f srt cs = filter (card_matches q f) cs"
  using assms by (simp add: visible_cards_def sort_step_def filtered_cards)

theorem visible_default_order_witness:
  "''default'' \<noteq> ''price-asc'' \<and> ''default'' \<noteq> ''price-desc'' \<and>
   visible_cards None ''all'' ''default'' [demo_phone, demo_case]
     = filter (card_matches None ''all'') [demo_phone, demo_case]"
  using visible_default_order [of "''default''" None "''all''" "[demo_phone, demo_case]"] by simp

text \<open>C6. Filter correctness: with a category other than \<open>all\<close> every visible card has
  exactly that category.\<close>

theorem visible_category:
  assumes "f \<noteq> ''all''" and "c \<in> set (visible_cards q f srt cs)"
  shows "category c = f"
  using assms by (simp add: set_visible_cards card_matches_def)

theorem visible_category_witness:
  "''a'' \<noteq> ''all'' \<and> demo_phone \<in> set (visible_cards None ''a'' ''default'' [demo_phone, demo_case]) \<and>
   category demo_phone = ''a''"
proof -
  have "demo_phone \<in> set (visible_cards None ''a'' ''default'' [demo_phone, demo_case])"
    by (simp add: set_visible_cards card_matches_def search_match_def)
  then show ?thesis using visible_category [of "''a''" demo_phone] by simp
qed

text \<open>C7. With the category \<open>all\<close> no card is excluded for its category: a card is
  visible exactly when it matches the search.\<close>

theorem visible_all_categories:
  "c \<in> set (visible_cards q ''all'' srt cs) \<longleftrightarrow> c \<in> set cs \<and> search_match q c"
  by (simp add: set_visible_cards card_matches_def)

text \<open>C8. Search correctness: with a search text that is not blank, every visible card's
  lower-cased title contains the trimmed, lower-cased text.\<close>

theorem visible_search:
  assumes "q = Some v" and "js_trim v \<noteq> []" and "c \<in> set (visible_cards q f srt cs)"
  shows "sublist (js_lower (js_trim v)) (title_text c)"
  using assms by (simp add: set_visible_cards card_matches_def search_match_def)

theorem visible_search_witness:
  "Some '' PHONE '' = Some '' PHONE '' \<and> js_trim '' PHONE '' \<noteq> [] \<and>
   demo_phone \<in> set (visible_cards (Some '' PHONE '') ''all'' ''default'' [demo_phone, demo_case]) \<and>
   sublist (js_lower (js_trim '' PHONE '')) (title_text demo_phone)"
proof -
  have t: "js_trim '' PHONE '' = ''PHONE''"
    by (simp add: js_trim_def is_js_space_def)
  have l: "js_lower ''PHONE'' = ''phone''"
    by code_simp
  have tt: "title_text demo_phone = ''phone x''"
    by code_simp
  have m: "demo_phone \<in> set (visible_cards (Some '' PHONE '') ''all'' ''default'' [demo_phone, demo_case])"
    by (simp add: set_visible_cards card_matches_def search_match_def t l tt)
  show ?thesis using visible_search [OF refl _ m] t m by simp
qed

text \<open>C9. A blank search text (empty or white space only) excludes nothing.\<close>

theorem visible_search_blank:
  assumes "js_trim v = []"
  shows "visible_cards (Some v) f srt cs = visible_cards None f srt cs"
  using assms by (simp add: visible_cards_def search_step_def)

theorem visible_search_blank_witness:
  "js_trim ''  '' = [] \<and>
   visible_cards (Some ''  '') ''all'' ''default'' [demo_phone] = visible_cards None ''all'' ''default'' [demo_phone]"
proof -
  have t: "js_trim ''  '' = []" by (simp add: js_trim_def is_js_space_def)
  show ?thesis using t visible_search_blank [OF t] by simp
qed

end
