(* ===== verification/View.thy ===== *)
theory View
  imports Pipeline
begin

text \<open>
  The view controller of \<open>src/script.js\<close>: \<open>showPage\<close> (lines 22--39). It removes
  \<open>active\<close> from every section and adds it to the element with the page id, whatever
  element that is (ids are unique, so there is at most one), marks as active every
  anchor whose \<open>href\<close> is \<open>#\<close> followed by the page id after clearing only the
  navigation links, records the page, binds the grid and applies the pipeline when the
  page is the catalog, and persists the page last.
  The attribute selector of line 30 is assumed well-formed: page ids hold no quote or
  line break (they come from the \<open>href\<close>s of the markup and from earlier calls).
\<close>

definition catalog :: js_string where
  "catalog = ''catalog''"

lemma catalog_nonempty [simp]: "catalog \<noteq> []"
  by (simp add: catalog_def)

text \<open>Lines 29--30, one anchor: navigation links lose \<open>active\<close>; every anchor whose
  \<open>href\<close> is \<open>#pageId\<close> gains it; other anchors keep their class.\<close>

definition link_flag :: "js_string \<Rightarrow> link \<Rightarrow> bool \<Rightarrow> bool" where
  "link_flag pid l a = (if href l = Some (CHR ''#'' # pid) then True else if in_nav l then False else a)"

definition showPage :: "dom \<Rightarrow> js_string \<Rightarrow> app \<Rightarrow> app" where
  "showPage d pid s =
     (let s1 = s\<lparr>active_ids := (active_ids s - set (page_ids d)) \<union> (if pid \<in> set (elem_ids d) then {pid} else {}),
                 cur_page := pid,
                 link_active := map2 (link_flag pid) (links d) (link_active s)\<rparr>;
          s2 = (if pid = catalog then applyFiltersAndSort d (s1\<lparr>grid_bound := has_grid d\<rparr>) else s1)
      in s2\<lparr>store := (store s2)(key_page \<mapsto> pid)\<rparr>)"

lemma showPage_cur_page [simp]: "cur_page (showPage d pid s) = pid"
  by (simp add: showPage_def applyFiltersAndSort_def schedule_def Let_def)

lemma showPage_store [simp]:
  "store (showPage d pid s) = (store s)(key_page \<mapsto> pid)"
  by (simp add: showPage_def applyFiltersAndSort_def schedule_def Let_def)

lemma showPage_eq_active:
  "active_ids (showPage d pid s) =
     (active_ids s - set (page_ids d)) \<union> (if pid \<in> set (elem_ids d) then {pid} else {})"
  by (simp add: showPage_def applyFiltersAndSort_def schedule_def Let_def)

lemma showPage_favorites [simp]: "favorites (showPage d pid s) = favorites s"
  by (simp add: showPage_def applyFiltersAndSort_def schedule_def Let_def)

text \<open>C33. Lines 23--25: after \<open>showPage pid\<close> the page section carrying
  \<open>active\<close> is the one with id \<open>pid\<close>, or none when no section has that id (a link to a
  missing anchor, a stale stored page), although spec section 4.5 says exactly one page is
  always active. \<open>getElementById\<close> finds any element, so an element that is not a
  section but has the id \<open>pid\<close> gains \<open>active\<close>, and only sections lose it: such an
  element keeps the class after every later \<open>showPage\<close>.\<close>

theorem showPage_active_sections:
  assumes "set (page_ids d) \<subseteq> set (elem_ids d)"
  shows "active_ids (showPage d pid s) \<inter> set (page_ids d) = (if pid \<in> set (page_ids d) then {pid} else {}) \<and>
         (pid \<in> set (elem_ids d) \<longrightarrow> pid \<in> active_ids (showPage d pid s)) \<and>
         active_ids s - set (page_ids d) \<subseteq> active_ids (showPage d pid s)"
  using assms by (auto simp: showPage_eq_active)

theorem showPage_active_sections_witness:
  "set (page_ids demo_dom) \<subseteq> set (elem_ids demo_dom) \<and>
   active_ids (showPage demo_dom ''about'' (demo_app [])) \<inter> set (page_ids demo_dom) = {} \<and>
   ''products-grid'' \<in> active_ids (showPage demo_dom ''home'' (showPage demo_dom ''products-grid'' (demo_app [])))"
proof -
  have w: "set (page_ids demo_dom) \<subseteq> set (elem_ids demo_dom)" by simp
  have a: "active_ids (showPage demo_dom ''about'' (demo_app [])) \<inter> set (page_ids demo_dom) = {}"
    using showPage_active_sections [OF w, of "''about''" "demo_app []"] by simp
  have g: "''products-grid'' \<in> active_ids (showPage demo_dom ''products-grid'' (demo_app []))"
    using showPage_active_sections [OF w, of "''products-grid''" "demo_app []"] by simp
  have "active_ids (showPage demo_dom ''products-grid'' (demo_app [])) - set (page_ids demo_dom)
      \<subseteq> active_ids (showPage demo_dom ''home'' (showPage demo_dom ''products-grid'' (demo_app [])))"
    using showPage_active_sections [OF w, of "''home''" "showPage demo_dom ''products-grid'' (demo_app [])"]
    by simp
  with g have "''products-grid'' \<in> active_ids (showPage demo_dom ''home'' (showPage demo_dom ''products-grid'' (demo_app [])))"
    by auto
  with w a show ?thesis by simp
qed

end
