(* ===== verification/Events.thy ===== *)
theory Events
  imports Favorites View
begin

text \<open>
  The event binding layer and the event loop of \<open>src/script.js\<close>. \<open>updateAndSave\<close>
  (lines 142--155) and the listeners (lines 158--211) become \<open>handle\<close>, one equation per
  kind of user event; the browser's timers become \<open>fire\<close>, which runs the earliest
  pending callback; start-up (lines 13--19 and 213--228) is \<open>startup\<close>, which fails
  with the \<open>JSON.parse\<close> error when the stored favourites are not a JSON array of strings
  (the exception ends the handler before any listener is attached). \<open>step\<close> is one
  move of the event loop: a user event after some milliseconds, allowed only while no
  timer is overdue, or the firing of the next timer. \<open>reachable\<close> collects the states
  of every run from start-up, and \<open>drain\<close> fires all pending timers.
\<close>

section \<open>Saving and re-applying\<close>

text \<open>Lines 142--155: \<open>null\<close> arguments are \<open>None\<close>.\<close>

definition updateAndSave :: "dom \<Rightarrow> js_string option \<Rightarrow> js_string option \<Rightarrow> app \<Rightarrow> app" where
  "updateAndSave d so fo s =
     (let s1 = s\<lparr>cur_sort := (case so of None \<Rightarrow> cur_sort s | Some v \<Rightarrow> v),
                 cur_filter := (case fo of None \<Rightarrow> cur_filter s | Some v \<Rightarrow> v)\<rparr>;
          st1 = (store s1)(key_sort \<mapsto> cur_sort s1, key_filter \<mapsto> cur_filter s1);
          st2 = (if has_search d then st1(key_search \<mapsto> search_val s1) else st1);
          s2 = s1\<lparr>store := st2\<rparr>
      in if cur_page s2 = catalog \<and> grid_bound s2 then applyFiltersAndSort d s2 else s2)"

section \<open>User events\<close>

datatype key = KEnter | KSpace | KOther

text \<open>The listeners' events; an index names the element among those the script found at
  start-up (\<open>sortButtons\<close>, \<open>filterButtons\<close>, the cards' \<open>.btn-fav\<close>, \<open>navLinks\<close>,
  \<open>cards\<close>). \<open>SearchInput v\<close> is an \<open>input\<close> event after which the box holds
  \<open>v\<close>.\<close>

datatype ui_event =
    SortClick nat
  | FilterClick nat
  | SearchInput js_string
  | FavClick nat
  | NavClick nat
  | GoCatalog
  | CardKey nat key

text \<open>Lines 176--182 for the button of card \<open>i\<close>: \<open>toggleFavorite(button.dataset.id)\<close>.\<close>

definition fav_click :: "dom \<Rightarrow> nat \<Rightarrow> app \<Rightarrow> app" where
  "fav_click d i s =
     (if i < length (cards0 d) then
        (case fav_btn (cards0 d ! i) of None \<Rightarrow> s | Some b \<Rightarrow> toggleFavorite d b s)
      else s)"

text \<open>Lines 185--191 for navigation link \<open>i\<close>: the page id is the \<open>href\<close> without
  its first character.\<close>

definition nav_click :: "dom \<Rightarrow> nat \<Rightarrow> app \<Rightarrow> app" where
  "nav_click d i s =
     (if i < length (links d) \<and> in_nav (links d ! i) then
        (case href (links d ! i) of
           None \<Rightarrow> s
         | Some h \<Rightarrow> (let target = drop 1 h in if target \<noteq> [] then showPage d target s else s))
      else s)"

text \<open>Lines 158--211. An event on an element that does not exist changes nothing. A
  navigation anchor without \<open>href\<close> makes \<open>getAttribute('href').substring(1)\<close>
  (line 188) throw a \<open>TypeError\<close>; the listener ends before changing anything.\<close>

fun handle :: "dom \<Rightarrow> app \<Rightarrow> ui_event \<Rightarrow> app" where
  "handle d s (SortClick i) =
     (if i < length (sort_btns d) then updateAndSave d (Some (sort_btns d ! i)) None s else s)"
| "handle d s (FilterClick i) =
     (if i < length (filter_btns d) then updateAndSave d None (Some (filter_btns d ! i)) s else s)"
| "handle d s (SearchInput v) =
     (if has_search d then updateAndSave d None None (s\<lparr>search_val := v\<rparr>) else s)"
| "handle d s (FavClick i) = fav_click d i s"
| "handle d s (NavClick i) = nav_click d i s"
| "handle d s GoCatalog = (if has_go_btn d then showPage d catalog s else s)"
| "handle d s (CardKey i k) = (if k = KEnter \<or> k = KSpace then fav_click d i s else s)"

section \<open>Timers\<close>

text \<open>Lines 224--227: the start-up callback binds \<open>grid\<close> again and re-applies the
  pipeline.\<close>

definition init_apply :: "dom \<Rightarrow> app \<Rightarrow> app" where
  "init_apply d s = applyFiltersAndSort d (s\<lparr>grid_bound := has_grid d\<rparr>)"

declare init_apply_def [simp]

text \<open>A firing timer runs its callback: the render of lines 101--114 or
  \<open>init_apply\<close>.\<close>

fun run_task :: "dom \<Rightarrow> task \<Rightarrow> app \<Rightarrow> app" where
  "run_task d (Render vs) s = render vs s"
| "run_task d InitApply s = init_apply d s"

definition fire :: "dom \<Rightarrow> app \<Rightarrow> app option" where
  "fire d s =
     (case timers s of
        [] \<Rightarrow> None
      | (due, tk) # rest \<Rightarrow> Some (run_task d tk (s\<lparr>timers := rest, clock := max (clock s) due\<rparr>)))"

section \<open>Start-up\<close>

text \<open>Lines 13--19: the state before line 214. The cards are the grid's children, the
  anchors and favourite buttons carry the classes of the markup, no timer is pending and
  the clock is at 0. The \<open>active\<close> classes of the filter and sort buttons start
  cleared: \<open>updateUI\<close> (line 215) sets every one of them before anything reads
  them.\<close>

definition init_state :: "dom \<Rightarrow> storage \<Rightarrow> js_string list \<Rightarrow> app" where
  "init_state d st favs =
     \<lparr>cur_sort = get_or st key_sort ''default'', cur_filter = get_or st key_filter ''all'',
      favorites = favs, cur_page = get_or st key_page ''home'', search_val = search_init d,
      grid_bound = False, store = st, grid_children = cards0 d, faded = {}, fav_shown = set (glyphs0 d),
      count_shown = None, badge_shown = None, active_ids = set (init_active d),
      link_active = map active0 (links d),
      filter_active = replicate (length (filter_btns d)) False,
      sort_active = replicate (length (sort_btns d)) False, timers = [], clock = 0\<rparr>"

text \<open>Lines 218--220.\<close>

definition restore_search :: "dom \<Rightarrow> app \<Rightarrow> app" where
  "restore_search d s =
     (case store s key_search of
        Some v \<Rightarrow> if has_search d \<and> v \<noteq> [] then s\<lparr>search_val := v\<rparr> else s
      | None \<Rightarrow> s)"

text \<open>Lines 214--228, after the favourites have been parsed.\<close>

definition boot :: "dom \<Rightarrow> storage \<Rightarrow> js_string list \<Rightarrow> app" where
  "boot d st favs =
     (let s0 = init_state d st favs;
          s1 = showPage d (cur_page s0) (updateUI d (updateFavoritesCount d s0));
          s2 = restore_search d s1
      in if cur_page s2 = catalog then schedule 100 InitApply s2 else s2)"

text \<open>Line 18 and start-up. \<open>JSON.parse\<close> throwing ends the handler before any
  listener is attached: \<open>Inl (ParseFailed e)\<close>. A JSON value that is not an array of
  strings (\<open>null\<close>, a number, an object, a string, an array holding other values) is
  \<open>Inl (NotStringList v)\<close>: the script then runs on with that value, and what it does
  with it (a \<open>TypeError\<close> at line 43 or 129 for most values, after the listeners are
  attached) is not modelled.\<close>

definition startup :: "dom \<Rightarrow> storage \<Rightarrow> read_error + app" where
  "startup d st =
     (case parse_favorites (get_or st key_favorites ''[]'') of
        Inl e \<Rightarrow> Inl e
      | Inr favs \<Rightarrow> Inr (boot d st favs))"

section \<open>The event loop\<close>

datatype event = User nat ui_event | Tick

fun step :: "dom \<Rightarrow> app \<Rightarrow> event \<Rightarrow> app option" where
  "step d s (User dt e) =
     (if \<forall>t \<in> set (timers s). clock s + dt \<le> fst t then Some (handle d (s\<lparr>clock := clock s + dt\<rparr>) e)
      else None)"
| "step d s Tick = fire d s"

fun run :: "dom \<Rightarrow> app \<Rightarrow> event list \<Rightarrow> app option" where
  "run d s [] = Some s"
| "run d s (e # es) = (case step d s e of None \<Rightarrow> None | Some s' \<Rightarrow> run d s' es)"

inductive reachable :: "dom \<Rightarrow> storage \<Rightarrow> app \<Rightarrow> bool" for d st where
  start: "startup d st = Inr s \<Longrightarrow> reachable d st s"
| advance: "reachable d st s \<Longrightarrow> step d s e = Some s' \<Longrightarrow> reachable d st s'"

section \<open>Draining the timers\<close>

fun task_weight :: "task \<Rightarrow> nat" where
  "task_weight (Render _) = 1"
| "task_weight InitApply = 2"

definition timer_weight :: "(nat \<times> task) list \<Rightarrow> nat" where
  "timer_weight ts = sum_list (map (task_weight \<circ> snd) ts)"

lemma timer_weight_insert [simp]:
  "timer_weight (insert_timer t ts) = task_weight (snd t) + timer_weight ts"
  by (induction ts) (auto simp: timer_weight_def)

lemma timer_weight_Cons [simp]: "timer_weight (t # ts) = task_weight (snd t) + timer_weight ts"
  by (simp add: timer_weight_def)

lemma timers_apply:
  "timers (applyFiltersAndSort d s) =
     (if grid_bound s
      then insert_timer (clock s + 200,
             Render (visible_cards (search_arg d s) (cur_filter s) (cur_sort s) (cards0 d))) (timers s)
      else timers s)"
  by (simp add: applyFiltersAndSort_def schedule_def Let_def search_arg_def)

lemma fire_decreases:
  assumes "fire d s = Some s'"
  shows "timer_weight (timers s') < timer_weight (timers s)"
proof (cases "timers s")
  case Nil
  with assms show ?thesis by (simp add: fire_def)
next
  case (Cons t rest)
  obtain due tk where t: "t = (due, tk)" by fastforce
  show ?thesis
  proof (cases tk)
    case (Render vs)
    with assms Cons t show ?thesis by (auto simp: fire_def render_def)
  next
    case InitApply
    with assms Cons t show ?thesis by (auto simp: fire_def timers_apply)
  qed
qed

function drain :: "dom \<Rightarrow> app \<Rightarrow> app" where
  "drain d s = (case fire d s of None \<Rightarrow> s | Some s' \<Rightarrow> drain d s')"
  by pat_completeness auto
termination
  by (relation "measure (\<lambda>(d, s). timer_weight (timers s))") (auto dest: fire_decreases)

declare drain.simps [simp del]

end
