(* ===== verification/Frame.thy ===== *)
theory Frame
  imports Events
begin

text \<open>
  Frame lemmas of the operations of \<open>src/script.js\<close>: for each operation, the fields of
  the state it leaves alone, and the equations that unfold \<open>showPage\<close> and start-up.
  They carry the invariant proofs of the theories that import this one, together with
  \<open>reachable_invariant\<close>, the rule that lifts a property kept by start-up, by every
  listener, by the passing of time and by every timer callback to all reachable states.
\<close>

section \<open>Frame lemmas\<close>

lemma apply_fields [simp]:
  "cur_sort (applyFiltersAndSort d s) = cur_sort s"
  "cur_filter (applyFiltersAndSort d s) = cur_filter s"
  "favorites (applyFiltersAndSort d s) = favorites s"
  "cur_page (applyFiltersAndSort d s) = cur_page s"
  "search_val (applyFiltersAndSort d s) = search_val s"
  "grid_bound (applyFiltersAndSort d s) = grid_bound s"
  "store (applyFiltersAndSort d s) = store s"
  "grid_children (applyFiltersAndSort d s) = grid_children s"
  "fav_shown (applyFiltersAndSort d s) = fav_shown s"
  "count_shown (applyFiltersAndSort d s) = count_shown s"
  "badge_shown (applyFiltersAndSort d s) = badge_shown s"
  "clock (applyFiltersAndSort d s) = clock s"
  by (simp_all add: applyFiltersAndSort_def schedule_def Let_def)

lemma render_fields [simp]:
  "cur_sort (render vs s) = cur_sort s"
  "cur_filter (render vs s) = cur_filter s"
  "favorites (render vs s) = favorites s"
  "cur_page (render vs s) = cur_page s"
  "search_val (render vs s) = search_val s"
  "grid_bound (render vs s) = grid_bound s"
  "store (render vs s) = store s"
  "count_shown (render vs s) = count_shown s"
  "badge_shown (render vs s) = badge_shown s"
  "timers (render vs s) = timers s"
  "clock (render vs s) = clock s"
  "faded (render vs s) = faded s"
  "grid_children (render vs s) = vs"
  by (simp_all add: render_def)

lemma showPage_fields [simp]:
  "cur_sort (showPage d p s) = cur_sort s"
  "cur_filter (showPage d p s) = cur_filter s"
  "search_val (showPage d p s) = search_val s"
  "grid_children (showPage d p s) = grid_children s"
  "fav_shown (showPage d p s) = fav_shown s"
  "count_shown (showPage d p s) = count_shown s"
  "badge_shown (showPage d p s) = badge_shown s"
  "clock (showPage d p s) = clock s"
  by (simp_all add: showPage_def Let_def)

lemma toggleFavorite_fields [simp]:
  "cur_sort (toggleFavorite d i s) = cur_sort s"
  "cur_filter (toggleFavorite d i s) = cur_filter s"
  "cur_page (toggleFavorite d i s) = cur_page s"
  "search_val (toggleFavorite d i s) = search_val s"
  "grid_bound (toggleFavorite d i s) = grid_bound s"
  "timers (toggleFavorite d i s) = timers s"
  "clock (toggleFavorite d i s) = clock s"
  "faded (toggleFavorite d i s) = faded s"
  by (simp_all add: toggleFavorite_def updateUI_def updateFavoritesCount_def Let_def)

lemma updateAndSave_fields [simp]:
  "cur_sort (updateAndSave d so fo s) = (case so of None \<Rightarrow> cur_sort s | Some v \<Rightarrow> v)"
  "cur_filter (updateAndSave d so fo s) = (case fo of None \<Rightarrow> cur_filter s | Some v \<Rightarrow> v)"
  "favorites (updateAndSave d so fo s) = favorites s"
  "cur_page (updateAndSave d so fo s) = cur_page s"
  "search_val (updateAndSave d so fo s) = search_val s"
  "grid_bound (updateAndSave d so fo s) = grid_bound s"
  "grid_children (updateAndSave d so fo s) = grid_children s"
  "fav_shown (updateAndSave d so fo s) = fav_shown s"
  "count_shown (updateAndSave d so fo s) = count_shown s"
  "badge_shown (updateAndSave d so fo s) = badge_shown s"
  "clock (updateAndSave d so fo s) = clock s"
  by (simp_all add: updateAndSave_def Let_def)

lemma schedule_fields [simp]:
  "cur_sort (schedule n tk s) = cur_sort s"
  "cur_filter (schedule n tk s) = cur_filter s"
  "favorites (schedule n tk s) = favorites s"
  "cur_page (schedule n tk s) = cur_page s"
  "search_val (schedule n tk s) = search_val s"
  "grid_bound (schedule n tk s) = grid_bound s"
  "store (schedule n tk s) = store s"
  "grid_children (schedule n tk s) = grid_children s"
  "fav_shown (schedule n tk s) = fav_shown s"
  "count_shown (schedule n tk s) = count_shown s"
  "badge_shown (schedule n tk s) = badge_shown s"
  "clock (schedule n tk s) = clock s"
  "faded (schedule n tk s) = faded s"
  by (simp_all add: schedule_def)

lemma count_ui_fields [simp]:
  "cur_sort (updateUI d s) = cur_sort s" "cur_sort (updateFavoritesCount d s) = cur_sort s"
  "cur_filter (updateUI d s) = cur_filter s" "cur_filter (updateFavoritesCount d s) = cur_filter s"
  "favorites (updateUI d s) = favorites s" "favorites (updateFavoritesCount d s) = favorites s"
  "cur_page (updateUI d s) = cur_page s" "cur_page (updateFavoritesCount d s) = cur_page s"
  "search_val (updateUI d s) = search_val s" "search_val (updateFavoritesCount d s) = search_val s"
  "grid_bound (updateUI d s) = grid_bound s" "grid_bound (updateFavoritesCount d s) = grid_bound s"
  "store (updateUI d s) = store s" "store (updateFavoritesCount d s) = store s"
  "grid_children (updateUI d s) = grid_children s"
  "grid_children (updateFavoritesCount d s) = grid_children s"
  "fav_shown (updateFavoritesCount d s) = fav_shown s"
  "count_shown (updateUI d s) = count_shown s" "badge_shown (updateUI d s) = badge_shown s"
  "timers (updateUI d s) = timers s" "timers (updateFavoritesCount d s) = timers s"
  "clock (updateUI d s) = clock s" "clock (updateFavoritesCount d s) = clock s"
  "faded (updateUI d s) = faded s" "faded (updateFavoritesCount d s) = faded s"
  by (simp_all add: updateUI_def updateFavoritesCount_def Let_def)

lemma restore_search_fields [simp]:
  "cur_sort (restore_search d s) = cur_sort s"
  "cur_filter (restore_search d s) = cur_filter s"
  "favorites (restore_search d s) = favorites s"
  "cur_page (restore_search d s) = cur_page s"
  "grid_bound (restore_search d s) = grid_bound s"
  "store (restore_search d s) = store s"
  "grid_children (restore_search d s) = grid_children s"
  "fav_shown (restore_search d s) = fav_shown s"
  "count_shown (restore_search d s) = count_shown s"
  "badge_shown (restore_search d s) = badge_shown s"
  "timers (restore_search d s) = timers s"
  "clock (restore_search d s) = clock s"
  "faded (restore_search d s) = faded s"
  by (simp_all add: restore_search_def split: option.splits)

lemma search_val_restore_search:
  "search_val (restore_search d s) =
     (case store s key_search of Some v \<Rightarrow> if has_search d \<and> v \<noteq> [] then v else search_val s
      | None \<Rightarrow> search_val s)"
  by (simp add: restore_search_def split: option.splits)

lemma startup_Inr:
  "startup d st = Inr s \<longleftrightarrow> (\<exists>favs. parse_favorites (get_or st key_favorites ''[]'') = Inr favs \<and> s = boot d st favs)"
  by (auto simp: startup_def split: sum.splits)


lemma showPage_eq:
  "showPage d p s =
     (let s1 = s\<lparr>active_ids := (active_ids s - set (page_ids d)) \<union> (if p \<in> set (elem_ids d) then {p} else {}), cur_page := p,
                 link_active := map2 (link_flag p) (links d) (link_active s)\<rparr>;
          s2 = (if p = catalog then applyFiltersAndSort d (s1\<lparr>grid_bound := has_grid d\<rparr>) else s1)
      in s2\<lparr>store := (store s2)(key_page \<mapsto> p)\<rparr>)"
  by (simp add: showPage_def)

lemma showPage_catalog_bound [simp]: "grid_bound (showPage d catalog s) = has_grid d"
  by (simp add: showPage_def Let_def)

lemma boot_grid_bound:
  "get_or st key_page ''home'' = catalog \<Longrightarrow> grid_bound (boot d st favs) = has_grid d"
  by (simp add: boot_def Let_def init_state_def)

text \<open>A navigation click either changes nothing or shows a page with a non-empty id.\<close>

lemma nav_click_inv:
  assumes "P s" and "\<And>p. p \<noteq> [] \<Longrightarrow> P (showPage d p s)"
  shows "P (nav_click d i s)"
  using assms by (simp add: nav_click_def Let_def split: option.splits)

section \<open>Lifting a property to the reachable states\<close>

text \<open>One step of the event loop, by cases: a user event after \<open>dt\<close> milliseconds with no
  timer overdue, or the firing of the next timer.\<close>

lemma step_SomeE [consumes 1, case_names user tick]:
  assumes "step d s e = Some s'"
  obtains dt ev where "e = User dt ev" and "\<forall>t \<in> set (timers s). clock s + dt \<le> fst t"
      and "s' = handle d (s\<lparr>clock := clock s + dt\<rparr>) ev"
    | "e = Tick" and "fire d s = Some s'"
  using assms by (cases e) (auto split: if_splits)

text \<open>A property that start-up establishes and that every listener, every advance of the
  clock and every timer callback keeps holds in every reachable state.\<close>

lemma reachable_invariant [consumes 1, case_names boot handle clock fire]:
  assumes "reachable d st s"
    and "\<And>favs. parse_favorites (get_or st key_favorites ''[]'') = Inr favs \<Longrightarrow> P (boot d st favs)"
    and "\<And>s e. P s \<Longrightarrow> P (handle d s e)"
    and "\<And>s dt. P s \<Longrightarrow> P (s\<lparr>clock := clock s + dt\<rparr>)"
    and "\<And>s s'. fire d s = Some s' \<Longrightarrow> P s \<Longrightarrow> P s'"
  shows "P s"
  using assms(1)
proof (induction rule: reachable.induct)
  case (start s)
  then show ?case using assms(2) by (auto simp: startup_Inr)
next
  case (advance s e s')
  from advance.hyps(2) show ?case
  proof (cases rule: step_SomeE)
    case (user dt ev)
    with advance.IH show ?thesis using assms(3,4) by simp
  next
    case tick
    with advance.IH show ?thesis using assms(5) by simp
  qed
qed

end
