(* ===== verification/Persistence.thy ===== *)
theory Persistence
  imports Frame
begin

text \<open>
  Write-through persistence (spec section 3): in every reachable state the five entries of
  \<open>localStorage\<close> hold exactly what a reload reads back as the current sort mode,
  filter, favourites, page and search text. \<open>saved\<close> isolates what
  \<open>updateAndSave\<close> writes (lines 143--150); \<open>dom_ok\<close> is the markup contract the
  property needs.
\<close>

section \<open>Write-through persistence\<close>

text \<open>The search text start-up restores (lines 218--220): the stored text when the page
  has a search box and the text is not empty, the box's initial value otherwise.\<close>

definition stored_search :: "dom \<Rightarrow> storage \<Rightarrow> js_string" where
  "stored_search d st =
     (case st key_search of
        Some v \<Rightarrow> if has_search d \<and> v \<noteq> [] then v else search_init d
      | None \<Rightarrow> search_init d)"

text \<open>The markup the persistence contract needs: sort and filter buttons carry non-empty
  values (an empty one is stored as \<open>''\<close> and read back as the default) and the search
  box starts empty.\<close>

definition dom_ok :: "dom \<Rightarrow> bool" where
  "dom_ok d \<longleftrightarrow> (\<forall>v \<in> set (sort_btns d). v \<noteq> []) \<and> (\<forall>v \<in> set (filter_btns d). v \<noteq> []) \<and>
     search_init d = []"

definition persisted :: "dom \<Rightarrow> app \<Rightarrow> bool" where
  "persisted d s \<longleftrightarrow>
     get_or (store s) key_sort ''default'' = cur_sort s \<and>
     get_or (store s) key_filter ''all'' = cur_filter s \<and>
     parse_favorites (get_or (store s) key_favorites ''[]'') = Inr (favorites s) \<and>
     get_or (store s) key_page ''home'' = cur_page s \<and>
     stored_search d (store s) = search_val s \<and>
     cur_sort s \<noteq> [] \<and> cur_filter s \<noteq> [] \<and> cur_page s \<noteq> []"

lemma get_or_nonempty: "dflt \<noteq> [] \<Longrightarrow> get_or st k dflt \<noteq> []"
  by (simp add: get_or_def split: option.splits)

lemma stored_search_other [simp]: "k \<noteq> key_search \<Longrightarrow> stored_search d (st(k \<mapsto> v)) = stored_search d st"
  by (simp add: stored_search_def)

lemma persisted_apply [simp]: "persisted d (applyFiltersAndSort d s) = persisted d s"
  by (simp add: persisted_def)

lemma persisted_render [simp]: "persisted d (render vs s) = persisted d s"
  by (simp add: persisted_def)

lemma persisted_showPage: "persisted d s \<Longrightarrow> p \<noteq> [] \<Longrightarrow> persisted d (showPage d p s)"
  by (simp add: persisted_def)

lemma persisted_toggle: "persisted d s \<Longrightarrow> persisted d (toggleFavorite d i s)"
  by (simp add: persisted_def json_roundtrip)

lemma stored_search_write:
  "dom_ok d \<Longrightarrow> has_search d \<Longrightarrow> stored_search d (st(key_search \<mapsto> v)) = v"
  by (simp add: stored_search_def dom_ok_def)

text \<open>What \<open>updateAndSave\<close> writes (lines 143--150), on its own.\<close>

definition saved :: "dom \<Rightarrow> js_string \<Rightarrow> js_string \<Rightarrow> app \<Rightarrow> app" where
  "saved d srt flt s =
     s\<lparr>cur_sort := srt, cur_filter := flt,
       store := (if has_search d then (store s)(key_sort \<mapsto> srt, key_filter \<mapsto> flt, key_search \<mapsto> search_val s)
                 else (store s)(key_sort \<mapsto> srt, key_filter \<mapsto> flt))\<rparr>"

lemma persisted_saved:
  assumes "persisted d s" and "dom_ok d" and "srt \<noteq> []" and "flt \<noteq> []"
  shows "persisted d (saved d srt flt s)"
proof (cases "has_search d")
  case True
  with assms show ?thesis by (simp add: saved_def persisted_def stored_search_write)
next
  case False
  with assms show ?thesis by (simp add: saved_def persisted_def)
qed

lemma updateAndSave_saved:
  "updateAndSave d so fo s =
     (let s2 = saved d (case so of None \<Rightarrow> cur_sort s | Some v \<Rightarrow> v)
                       (case fo of None \<Rightarrow> cur_filter s | Some v \<Rightarrow> v) s
      in if cur_page s2 = catalog \<and> grid_bound s2 then applyFiltersAndSort d s2 else s2)"
  by (simp add: updateAndSave_def saved_def Let_def)

lemma persisted_updateAndSave:
  assumes "persisted d s" and "dom_ok d"
    and "\<forall>v. so = Some v \<longrightarrow> v \<noteq> []" and "\<forall>v. fo = Some v \<longrightarrow> v \<noteq> []"
  shows "persisted d (updateAndSave d so fo s)"
proof -
  have "cur_sort s \<noteq> []" "cur_filter s \<noteq> []" using assms(1) by (simp_all add: persisted_def)
  then have "(case so of None \<Rightarrow> cur_sort s | Some v \<Rightarrow> v) \<noteq> []"
    and "(case fo of None \<Rightarrow> cur_filter s | Some v \<Rightarrow> v) \<noteq> []"
    using assms(3,4) by (auto split: option.splits)
  with assms(1,2) show ?thesis
    by (simp add: updateAndSave_saved Let_def persisted_saved)
qed

lemma persisted_search_input:
  assumes "persisted d s" and "dom_ok d" and "has_search d"
  shows "persisted d (updateAndSave d None None (s\<lparr>search_val := v\<rparr>))"
proof -
  have ne: "cur_sort s \<noteq> []" "cur_filter s \<noteq> []" using assms(1) by (simp_all add: persisted_def)
  have "persisted d (saved d (cur_sort s) (cur_filter s) (s\<lparr>search_val := v\<rparr>))"
    using assms ne by (simp add: saved_def persisted_def stored_search_write)
  then show ?thesis
    by (simp add: updateAndSave_saved Let_def)
qed

lemma persisted_fav_click: "persisted d s \<Longrightarrow> persisted d (fav_click d i s)"
  by (simp add: fav_click_def persisted_toggle split: option.splits)

lemma dom_ok_sort_btn: "dom_ok d \<Longrightarrow> i < length (sort_btns d) \<Longrightarrow> sort_btns d ! i \<noteq> []"
  by (simp add: dom_ok_def)

lemma dom_ok_filter_btn: "dom_ok d \<Longrightarrow> i < length (filter_btns d) \<Longrightarrow> filter_btns d ! i \<noteq> []"
  by (simp add: dom_ok_def)

lemma persisted_handle:
  assumes "persisted d s" and "dom_ok d"
  shows "persisted d (handle d s e)"
proof (cases e)
  case (SortClick i)
  show ?thesis
  proof (cases "i < length (sort_btns d)")
    case True
    with assms have "sort_btns d ! i \<noteq> []" by (simp add: dom_ok_sort_btn)
    with assms True SortClick show ?thesis by (simp add: persisted_updateAndSave)
  qed (simp add: SortClick assms)
next
  case (FilterClick i)
  show ?thesis
  proof (cases "i < length (filter_btns d)")
    case True
    with assms have "filter_btns d ! i \<noteq> []" by (simp add: dom_ok_filter_btn)
    with assms True FilterClick show ?thesis by (simp add: persisted_updateAndSave)
  qed (simp add: FilterClick assms)
next
  case (SearchInput v)
  with assms show ?thesis by (simp add: persisted_search_input)
next
  case (FavClick i)
  with assms show ?thesis by (simp add: persisted_fav_click)
next
  case (NavClick i)
  have "persisted d (nav_click d i s)" by (rule nav_click_inv) (simp_all add: assms persisted_showPage)
  with NavClick show ?thesis by simp
next
  case GoCatalog
  with assms show ?thesis by (simp add: persisted_showPage)
next
  case (CardKey i k)
  with assms show ?thesis by (simp add: persisted_fav_click)
qed

lemma persisted_upd_clock [simp]: "persisted d (s\<lparr>clock := n\<rparr>) = persisted d s"
  by (simp add: persisted_def)

lemma persisted_upd_timers [simp]: "persisted d (s\<lparr>timers := ts\<rparr>) = persisted d s"
  by (simp add: persisted_def)

lemma persisted_upd_bound [simp]: "persisted d (s\<lparr>grid_bound := b\<rparr>) = persisted d s"
  by (simp add: persisted_def)

lemma persisted_run_task [simp]: "persisted d (run_task d tk s) = persisted d s"
  by (cases tk) simp_all

lemma persisted_fire: "fire d s = Some s' \<Longrightarrow> persisted d s \<Longrightarrow> persisted d s'"
  by (auto simp: fire_def split: list.splits)

lemma boot_fields:
  "cur_sort (boot d st favs) = get_or st key_sort ''default''"
  "cur_filter (boot d st favs) = get_or st key_filter ''all''"
  "favorites (boot d st favs) = favs"
  "cur_page (boot d st favs) = get_or st key_page ''home''"
  "store (boot d st favs) = st(key_page \<mapsto> get_or st key_page ''home'')"
  "search_val (boot d st favs) = stored_search d st"
  by (simp_all add: boot_def Let_def init_state_def search_val_restore_search stored_search_def
      split: option.splits)

lemma persisted_boot:
  assumes "parse_favorites (get_or st key_favorites ''[]'') = Inr favs"
  shows "persisted d (boot d st favs)"
  using assms by (simp add: persisted_def boot_fields get_or_nonempty)

lemma reachable_persisted: "reachable d st s \<Longrightarrow> dom_ok d \<Longrightarrow> persisted d s"
  by (induction rule: reachable_invariant) (simp_all add: persisted_boot persisted_handle persisted_fire)

end
