(* ===== verification/Convergence.thy ===== *)
theory Convergence
  imports Persistence
begin

text \<open>
  The deferred renders. Every \<open>applyFiltersAndSort\<close> schedules its own render 200 ms
  later and none is cancelled (lines 98--115). The invariant \<open>render_inv\<close> says that
  the queue is ordered and that the last pending render (or, with none pending, the grid)
  is the pipeline's result for the current state; \<open>drain\<close> fires the pending timers,
  and the lemmas show that it ends and leaves the grid showing the current result.
\<close>

section \<open>The grid converges to the current pipeline result\<close>

text \<open>The card lists of the pending renders, in firing order.\<close>

fun renders :: "(nat \<times> task) list \<Rightarrow> card list list" where
  "renders [] = []"
| "renders ((_, Render vs) # ts) = vs # renders ts"
| "renders ((_, InitApply) # ts) = renders ts"

text \<open>What the grid will show once every pending timer has fired.\<close>

definition final_grid :: "app \<Rightarrow> card list" where
  "final_grid s = (if renders (timers s) = [] then grid_children s else last (renders (timers s)))"

text \<open>The pipeline's result for the current state.\<close>

definition current_view :: "dom \<Rightarrow> app \<Rightarrow> card list" where
  "current_view d s = visible_cards (search_arg d s) (cur_filter s) (cur_sort s) (cards0 d)"

definition init_pending :: "app \<Rightarrow> bool" where
  "init_pending s \<longleftrightarrow> (\<exists>t \<in> set (timers s). snd t = InitApply)"

text \<open>The timer queue is ordered, no timer is due more than 200 ms ahead, and the grid
  is bound only on a page that has one.\<close>

definition timers_ok :: "dom \<Rightarrow> app \<Rightarrow> bool" where
  "timers_ok d s \<longleftrightarrow>
     sorted (map fst (timers s)) \<and> (\<forall>t \<in> set (timers s). fst t \<le> clock s + 200) \<and>
     (grid_bound s \<longrightarrow> has_grid d)"

definition render_inv :: "dom \<Rightarrow> app \<Rightarrow> bool" where
  "render_inv d s \<longleftrightarrow> timers_ok d s \<and>
     (cur_page s = catalog \<and> grid_bound s \<and> \<not> init_pending s \<longrightarrow> final_grid s = current_view d s)"

lemma renders_append [simp]: "renders (ts @ us) = renders ts @ renders us"
  by (induction ts rule: renders.induct) auto

lemma renders_insert_timer_last:
  "\<forall>u \<in> set ts. fst u \<le> n \<Longrightarrow> renders (insert_timer (n, Render vs) ts) = renders ts @ [vs]"
  by (simp add: insert_timer_last)

lemma init_pending_insert_render [simp]:
  "init_pending (s\<lparr>timers := insert_timer (n, Render vs) ts\<rparr>) = init_pending (s\<lparr>timers := ts\<rparr>)"
  by (auto simp: init_pending_def)

lemma current_view_apply [simp]: "current_view d (applyFiltersAndSort d s) = current_view d s"
  by (simp add: current_view_def search_arg_def)

text \<open>After \<open>applyFiltersAndSort\<close> on a bound grid the new render is the last pending one.\<close>

lemma final_grid_apply:
  assumes "grid_bound s" and "\<forall>t \<in> set (timers s). fst t \<le> clock s + 200"
  shows "final_grid (applyFiltersAndSort d s) = current_view d s"
  using assms
  by (simp add: final_grid_def current_view_def timers_apply renders_insert_timer_last
      search_arg_def)

lemma timers_ok_apply: "timers_ok d s \<Longrightarrow> timers_ok d (applyFiltersAndSort d s)"
  by (simp add: timers_ok_def timers_apply sorted_insert_timer)

text \<open>An application on a bound grid establishes the invariant, whatever the queue held.\<close>

lemma render_inv_apply_bound:
  assumes "timers_ok d s" and "grid_bound s"
  shows "render_inv d (applyFiltersAndSort d s)"
  using assms timers_ok_apply [OF assms(1)]
  by (simp add: render_inv_def timers_ok_def final_grid_apply)

lemma render_inv_off_catalog:
  "timers_ok d s \<Longrightarrow> \<not> (cur_page s = catalog \<and> grid_bound s) \<Longrightarrow> render_inv d s"
  by (auto simp: render_inv_def)

lemma render_inv_updateAndSave:
  assumes "timers_ok d s"
  shows "render_inv d (updateAndSave d so fo s)"
proof -
  define s2 where "s2 = saved d (case so of None \<Rightarrow> cur_sort s | Some v \<Rightarrow> v)
                               (case fo of None \<Rightarrow> cur_filter s | Some v \<Rightarrow> v) s"
  have ok: "timers_ok d s2" using assms by (simp add: s2_def saved_def timers_ok_def)
  have eq: "updateAndSave d so fo s =
      (if cur_page s2 = catalog \<and> grid_bound s2 then applyFiltersAndSort d s2 else s2)"
    by (simp only: updateAndSave_saved s2_def Let_def)
  show ?thesis
  proof (cases "cur_page s2 = catalog \<and> grid_bound s2")
    case True
    then have "grid_bound s2" by simp
    with ok have "render_inv d (applyFiltersAndSort d s2)" by (rule render_inv_apply_bound)
    with True eq show ?thesis by (simp only: if_True simp_thms)
  next
    case False
    with ok have "render_inv d s2" by (rule render_inv_off_catalog)
    with False eq show ?thesis by (simp only: if_False)
  qed
qed

lemma render_inv_store [simp]: "render_inv d (s\<lparr>store := st\<rparr>) = render_inv d s"
  by (simp add: render_inv_def timers_ok_def init_pending_def final_grid_def current_view_def search_arg_def)

lemma apply_unbound: "\<not> grid_bound s \<Longrightarrow> applyFiltersAndSort d s = s"
  by (simp add: applyFiltersAndSort_def)

lemma render_inv_showPage:
  assumes "timers_ok d s"
  shows "render_inv d (showPage d p s)"
proof -
  define s1 where "s1 = s\<lparr>active_ids := (active_ids s - set (page_ids d)) \<union> (if p \<in> set (elem_ids d) then {p} else {}), cur_page := p,
                 link_active := map2 (link_flag p) (links d) (link_active s)\<rparr>"
  define s2 where "s2 = s1\<lparr>grid_bound := has_grid d\<rparr>"
  have ok1: "timers_ok d s1" using assms by (simp add: s1_def timers_ok_def)
  have ok2: "timers_ok d s2" using ok1 by (simp add: s2_def timers_ok_def)
  have pg: "cur_page s1 = p" by (simp add: s1_def)
  have "render_inv d (if p = catalog then applyFiltersAndSort d s2 else s1)"
  proof (cases "p = catalog")
    case True
    show ?thesis
    proof (cases "has_grid d")
      case True
      then have "grid_bound s2" by (simp add: s2_def)
      with ok2 have "render_inv d (applyFiltersAndSort d s2)" by (rule render_inv_apply_bound)
      with \<open>p = catalog\<close> show ?thesis by (simp only: if_P)
    next
      case False
      then have "\<not> grid_bound s2" by (simp add: s2_def)
      then have "applyFiltersAndSort d s2 = s2" by (rule apply_unbound)
      moreover have "render_inv d s2"
        using ok2 \<open>\<not> grid_bound s2\<close> by (simp add: render_inv_off_catalog)
      ultimately show ?thesis using \<open>p = catalog\<close> by (simp only: if_P)
    qed
  next
    case False
    with ok1 pg have "render_inv d s1" by (simp add: render_inv_off_catalog)
    with False show ?thesis by (simp only: if_False)
  qed
  moreover have "showPage d p s =
      (let s3 = (if p = catalog then applyFiltersAndSort d s2 else s1) in s3\<lparr>store := (store s3)(key_page \<mapsto> p)\<rparr>)"
    by (simp only: showPage_def s1_def s2_def Let_def)
  ultimately show ?thesis by (simp only: Let_def render_inv_store)
qed

lemma render_inv_toggle [simp]: "render_inv d (toggleFavorite d i s) = render_inv d s"
  by (simp add: render_inv_def timers_ok_def init_pending_def final_grid_def current_view_def search_arg_def)

lemma render_inv_fav_click: "render_inv d s \<Longrightarrow> render_inv d (fav_click d i s)"
  by (simp add: fav_click_def split: option.splits)

lemma render_inv_timers_ok: "render_inv d s \<Longrightarrow> timers_ok d s"
  by (simp add: render_inv_def)

lemma timers_ok_search [simp]: "timers_ok d (s\<lparr>search_val := v\<rparr>) = timers_ok d s"
  by (simp add: timers_ok_def)

lemma render_inv_handle:
  assumes "render_inv d s"
  shows "render_inv d (handle d s e)"
proof -
  have ok: "timers_ok d s" using assms by (rule render_inv_timers_ok)
  show ?thesis
    using assms ok
    by (cases e) (simp_all add: render_inv_updateAndSave render_inv_showPage render_inv_fav_click
        nav_click_inv [where P = "render_inv d"])
qed

lemma render_inv_fire:
  assumes "fire d s = Some s'" and "render_inv d s"
  shows "render_inv d s'"
proof -
  obtain due tk rest where ts: "timers s = (due, tk) # rest"
    using assms(1) by (cases "timers s") (auto simp: fire_def)
  define s1 where "s1 = s\<lparr>timers := rest, clock := max (clock s) due\<rparr>"
  have s': "s' = run_task d tk s1" using assms(1) ts by (simp add: fire_def s1_def)
  have ok1: "timers_ok d s1"
    using assms(2) ts by (auto simp: s1_def render_inv_def timers_ok_def)
  show ?thesis
  proof (cases tk)
    case (Render vs)
    have fg: "final_grid (render vs s1) = final_grid s"
      using ts Render by (simp add: final_grid_def s1_def)
    have ip: "init_pending (render vs s1) = init_pending s"
      using ts Render by (auto simp: init_pending_def s1_def)
    have cv: "current_view d (render vs s1) = current_view d s"
      by (simp add: current_view_def search_arg_def s1_def)
    have ok: "timers_ok d (render vs s1)" using ok1 by (simp add: timers_ok_def)
    show ?thesis using assms(2) fg ip cv ok Render s' by (simp add: render_inv_def s1_def)
  next
    case InitApply
    have ok2: "timers_ok d (s1\<lparr>grid_bound := has_grid d\<rparr>)" using ok1 by (simp add: timers_ok_def)
    show ?thesis
    proof (cases "has_grid d")
      case True
      then have "grid_bound (s1\<lparr>grid_bound := has_grid d\<rparr>)" by simp
      with ok2 have "render_inv d (applyFiltersAndSort d (s1\<lparr>grid_bound := has_grid d\<rparr>))"
        by (rule render_inv_apply_bound)
      with s' InitApply show ?thesis by simp
    next
      case False
      with ok2 have "render_inv d (s1\<lparr>grid_bound := has_grid d\<rparr>)" by (simp add: render_inv_off_catalog)
      with s' InitApply False show ?thesis by (simp add: apply_unbound)
    qed
  qed
qed

lemma render_inv_clock:
  "render_inv d s \<Longrightarrow> render_inv d (s\<lparr>clock := clock s + dt\<rparr>)"
  by (auto simp: render_inv_def timers_ok_def init_pending_def final_grid_def current_view_def search_arg_def)

lemma timers_ok_restore [simp]: "timers_ok d (restore_search d s) = timers_ok d s"
  by (simp add: timers_ok_def)

lemma timers_ok_schedule: "timers_ok d s \<Longrightarrow> n \<le> 200 \<Longrightarrow> timers_ok d (schedule n tk s)"
  by (simp add: timers_ok_def schedule_def sorted_insert_timer)

lemma render_inv_boot: "render_inv d (boot d st favs)"
proof -
  define s0 where "s0 = updateUI d (updateFavoritesCount d (init_state d st favs))"
  define s2 where "s2 = restore_search d (showPage d (cur_page (init_state d st favs)) s0)"
  have ok0: "timers_ok d s0" by (simp add: s0_def timers_ok_def init_state_def)
  have "render_inv d (showPage d (cur_page (init_state d st favs)) s0)"
    using ok0 by (rule render_inv_showPage)
  then have ok2: "timers_ok d s2" by (simp add: s2_def render_inv_def)
  have b: "boot d st favs = (if cur_page s2 = catalog then schedule 100 InitApply s2 else s2)"
    by (simp add: boot_def s0_def s2_def Let_def)
  show ?thesis
  proof (cases "cur_page s2 = catalog")
    case True
    have "timers_ok d (schedule 100 InitApply s2)" using ok2 by (simp add: timers_ok_schedule)
    moreover have "init_pending (schedule 100 InitApply s2)" by (simp add: init_pending_def schedule_def)
    ultimately show ?thesis using True b by (simp add: render_inv_def)
  next
    case False
    with ok2 b show ?thesis by (simp add: render_inv_off_catalog)
  qed
qed

lemma reachable_render_inv: "reachable d st s \<Longrightarrow> render_inv d s"
  by (induction rule: reachable_invariant) (simp_all add: render_inv_boot render_inv_handle render_inv_clock render_inv_fire)

section \<open>Draining the timers\<close>

lemma fire_None: "fire d s = None \<longleftrightarrow> timers s = []"
  by (simp add: fire_def split: list.splits)

lemma reachable_drain: "reachable d st s \<Longrightarrow> reachable d st (drain d s) \<and> timers (drain d s) = []"
proof (induction d s rule: drain.induct)
  case (1 d s)
  show ?case
  proof (cases "fire d s")
    case None
    moreover from None have "timers s = []" by (simp add: fire_None)
    ultimately show ?thesis using "1.prems" by (simp add: drain.simps [of d s])
  next
    case (Some s')
    with "1.prems" have "reachable d st s'" by (auto intro: reachable.advance [where e = Tick])
    with Some "1.IH" show ?thesis by (simp add: drain.simps [of d s])
  qed
qed

text \<open>Firing timers changes neither the preferences, nor the page, nor a bound grid.\<close>

definition same_view :: "app \<Rightarrow> app \<Rightarrow> bool" where
  "same_view s s' \<longleftrightarrow> cur_sort s' = cur_sort s \<and> cur_filter s' = cur_filter s \<and>
     search_val s' = search_val s \<and> cur_page s' = cur_page s \<and> (grid_bound s \<longrightarrow> grid_bound s')"

lemma same_view_trans: "same_view s s' \<Longrightarrow> same_view s' s'' \<Longrightarrow> same_view s s''"
  by (simp add: same_view_def)

lemma same_view_fire:
  assumes "fire d s = Some s'" and "render_inv d s"
  shows "same_view s s'"
proof -
  obtain due tk rest where ts: "timers s = (due, tk) # rest"
    using assms(1) by (cases "timers s") (auto simp: fire_def)
  have s': "s' = run_task d tk (s\<lparr>timers := rest, clock := max (clock s) due\<rparr>)"
    using assms(1) ts by (simp add: fire_def)
  have "grid_bound s \<longrightarrow> has_grid d" using assms(2) by (simp add: render_inv_def timers_ok_def)
  with s' show ?thesis by (cases tk) (simp_all add: same_view_def)
qed

lemma same_view_drain: "render_inv d s \<Longrightarrow> same_view s (drain d s) \<and> render_inv d (drain d s)"
proof (induction d s rule: drain.induct)
  case (1 d s)
  show ?case
  proof (cases "fire d s")
    case None
    with "1.prems" show ?thesis by (simp add: drain.simps [of d s] same_view_def)
  next
    case (Some s')
    with "1.prems" have "render_inv d s'" and "same_view s s'"
      by (simp_all add: render_inv_fire same_view_fire)
    with Some "1.IH" show ?thesis by (auto simp: drain.simps [of d s] intro: same_view_trans)
  qed
qed

lemma drained_current:
  assumes "render_inv d s" and "timers s = []" and "cur_page s = catalog" and "grid_bound s"
  shows "grid_children s = current_view d s"
  using assms by (simp add: render_inv_def final_grid_def init_pending_def)

lemma drain_current:
  assumes "reachable d st s" and "cur_page s = catalog" and "grid_bound s"
  shows "grid_children (drain d s) = current_view d s"
proof -
  have inv: "render_inv d s" using assms(1) by (rule reachable_render_inv)
  then have sv: "same_view s (drain d s)" and inv': "render_inv d (drain d s)"
    using same_view_drain by blast+
  have "timers (drain d s) = []" using assms(1) reachable_drain by blast
  with inv' sv assms(2,3) have "grid_children (drain d s) = current_view d (drain d s)"
    by (simp add: drained_current same_view_def)
  with sv show ?thesis by (simp add: current_view_def search_arg_def same_view_def)
qed

end
