(* ===== verification/Display.thy ===== *)
theory Display
  imports Convergence
begin

text \<open>
  What the document shows: the favourite glyphs and the badge agree with the favourites
  (\<open>ui_ok\<close>), the \<open>fade-out\<close> class once added stays on every card (\<open>fade_ok\<close>),
  and the \<open>active\<close> flags stay one per anchor and button (\<open>shape_ok\<close>); each is kept
  by every operation and lifted to the reachable states.
\<close>

section \<open>The favourite glyphs and the badge agree with the favourites\<close>

text \<open>The markup contract for the glyphs: a card's \<open>.btn-fav\<close> carries the card's own
  id (the render of lines 104--112 reads the card's id, \<open>updateUI\<close> the button's).\<close>

definition btn_ids_ok :: "dom \<Rightarrow> bool" where
  "btn_ids_ok d \<longleftrightarrow> (\<forall>c \<in> set (cards0 d). fav_btn c = None \<or> fav_btn c = Some (cid c))"

definition glyphs_ok :: "app \<Rightarrow> bool" where
  "glyphs_ok s \<longleftrightarrow>
     (\<forall>c \<in> set (grid_children s). case fav_btn c of None \<Rightarrow> True
        | Some b \<Rightarrow> (c \<in> fav_shown s \<longleftrightarrow> b \<in> set (favorites s)))"

definition badge_ok :: "dom \<Rightarrow> app \<Rightarrow> bool" where
  "badge_ok d s \<longleftrightarrow>
     (has_count d \<longrightarrow> count_shown s = Some (length (favorites s))) \<and>
     (has_badge d \<longrightarrow> badge_shown s = Some (length (favorites s), if favorites s = [] then Neutral else Accent))"

definition cards_ok :: "dom \<Rightarrow> app \<Rightarrow> bool" where
  "cards_ok d s \<longleftrightarrow> set (grid_children s) \<subseteq> set (cards0 d) \<and> set (concat (renders (timers s))) \<subseteq> set (cards0 d)"

definition ui_ok :: "dom \<Rightarrow> app \<Rightarrow> bool" where
  "ui_ok d s \<longleftrightarrow> cards_ok d s \<and> (btn_ids_ok d \<longrightarrow> glyphs_ok s) \<and> badge_ok d s"

lemma render_glyphs_other: "c \<notin> set vs \<Longrightarrow> c \<in> render_glyphs favs vs sh \<longleftrightarrow> c \<in> sh"
  by (induction vs arbitrary: sh) auto

lemma render_glyphs_mem:
  "c \<in> set vs \<Longrightarrow> fav_btn c \<noteq> None \<Longrightarrow> c \<in> render_glyphs favs vs sh \<longleftrightarrow> cid c \<in> set favs"
proof (induction vs arbitrary: sh)
  case Nil
  then show ?case by simp
next
  case (Cons x xs)
  show ?case
  proof (cases "c \<in> set xs")
    case True
    with Cons show ?thesis by simp
  next
    case False
    with Cons.prems have "x = c" by simp
    with False Cons.prems show ?thesis by (auto simp: render_glyphs_other)
  qed
qed

lemma glyphs_ok_render:
  assumes "btn_ids_ok d" and "set vs \<subseteq> set (cards0 d)"
  shows "glyphs_ok (render vs s)"
proof -
  have "\<And>c b. c \<in> set vs \<Longrightarrow> fav_btn c = Some b \<Longrightarrow> b = cid c"
    using assms by (fastforce simp: btn_ids_ok_def)
  then show ?thesis
    by (auto simp: glyphs_ok_def render_def render_glyphs_mem split: option.splits)
qed

lemma set_renders: "set (renders ts) = {vs. \<exists>due. (due, Render vs) \<in> set ts}"
  by (induction ts rule: renders.induct) auto

lemma renders_insert_timer: "set (renders (insert_timer t ts)) = set (renders [t]) \<union> set (renders ts)"
  by (auto simp: set_renders set_insert_timer)

lemma ui_ok_apply: "ui_ok d s \<Longrightarrow> ui_ok d (applyFiltersAndSort d s)"
  by (auto simp: ui_ok_def cards_ok_def glyphs_ok_def badge_ok_def timers_apply renders_insert_timer
      set_visible_cards cong: option.case_cong)

lemma glyphs_ok_toggle: "glyphs_ok (toggleFavorite d i s)"
  by (simp add: glyphs_ok_def toggleFavorite_def updateUI_def updateFavoritesCount_def btn_glyphs_def
      Let_def split: option.splits)

lemma badge_ok_toggle: "badge_ok d (toggleFavorite d i s)"
  by (simp add: badge_ok_def toggleFavorite_def updateUI_def updateFavoritesCount_def Let_def)

lemma ui_ok_toggle: "ui_ok d s \<Longrightarrow> ui_ok d (toggleFavorite d i s)"
  by (simp add: ui_ok_def cards_ok_def glyphs_ok_toggle badge_ok_toggle)

lemma ui_ok_upd [simp]:
  "ui_ok d (s\<lparr>store := st\<rparr>) = ui_ok d s"
  "ui_ok d (s\<lparr>cur_page := p\<rparr>) = ui_ok d s"
  "ui_ok d (s\<lparr>active_ids := pa\<rparr>) = ui_ok d s"
  "ui_ok d (s\<lparr>link_active := la\<rparr>) = ui_ok d s"
  "ui_ok d (s\<lparr>grid_bound := b\<rparr>) = ui_ok d s"
  "ui_ok d (s\<lparr>search_val := v\<rparr>) = ui_ok d s"
  "ui_ok d (s\<lparr>clock := n\<rparr>) = ui_ok d s"
  by (simp_all add: ui_ok_def cards_ok_def glyphs_ok_def badge_ok_def cong: option.case_cong)

lemma ui_ok_showPage: "ui_ok d s \<Longrightarrow> ui_ok d (showPage d p s)"
  by (simp add: showPage_eq Let_def ui_ok_apply)

lemma ui_ok_saved [simp]: "ui_ok d (saved d srt flt s) = ui_ok d s"
  by (simp add: saved_def ui_ok_def cards_ok_def glyphs_ok_def badge_ok_def cong: option.case_cong)

lemma ui_ok_updateAndSave: "ui_ok d s \<Longrightarrow> ui_ok d (updateAndSave d so fo s)"
  by (simp add: updateAndSave_saved Let_def ui_ok_apply)

lemma ui_ok_fav_click: "ui_ok d s \<Longrightarrow> ui_ok d (fav_click d i s)"
  by (simp add: fav_click_def ui_ok_toggle split: option.splits)

lemma ui_ok_handle: "ui_ok d s \<Longrightarrow> ui_ok d (handle d s e)"
  by (cases e) (simp_all add: ui_ok_updateAndSave ui_ok_showPage ui_ok_fav_click
      nav_click_inv [where P = "ui_ok d"])

lemma ui_ok_render:
  assumes "set vs \<subseteq> set (cards0 d)" and "ui_ok d s"
  shows "ui_ok d (render vs s)"
  using assms by (simp add: ui_ok_def cards_ok_def badge_ok_def glyphs_ok_render)

lemma ui_ok_fire:
  assumes "fire d s = Some s'" and "ui_ok d s"
  shows "ui_ok d s'"
proof -
  obtain due tk rest where ts: "timers s = (due, tk) # rest"
    using assms(1) by (cases "timers s") (auto simp: fire_def)
  define s1 where "s1 = s\<lparr>timers := rest, clock := max (clock s) due\<rparr>"
  have s': "s' = run_task d tk s1" using assms(1) ts by (simp add: fire_def s1_def)
  have ok1: "ui_ok d s1"
    using assms(2) ts by (auto simp: s1_def ui_ok_def cards_ok_def glyphs_ok_def badge_ok_def
        set_renders cong: option.case_cong)
  show ?thesis
  proof (cases tk)
    case (Render vs)
    have "set vs \<subseteq> set (cards0 d)"
      using assms(2) ts Render by (auto simp: ui_ok_def cards_ok_def set_renders)
    with ok1 Render s' show ?thesis by (simp add: ui_ok_render)
  next
    case InitApply
    with ok1 s' show ?thesis by (simp add: ui_ok_apply)
  qed
qed

lemma ui_ok_schedule_init [simp]: "ui_ok d (schedule n InitApply s) = ui_ok d s"
  by (simp add: schedule_def ui_ok_def cards_ok_def glyphs_ok_def badge_ok_def renders_insert_timer
      cong: option.case_cong)

lemma ui_ok_boot: "ui_ok d (boot d st favs)"
proof -
  define s0 where "s0 = updateUI d (updateFavoritesCount d (init_state d st favs))"
  define s2 where "s2 = restore_search d (showPage d (cur_page (init_state d st favs)) s0)"
  have "ui_ok d s0"
    by (simp add: s0_def ui_ok_def cards_ok_def glyphs_ok_def badge_ok_def updateUI_def
        updateFavoritesCount_def btn_glyphs_def init_state_def Let_def split: option.splits)
  then have ok2: "ui_ok d s2"
    by (simp add: s2_def restore_search_def ui_ok_showPage split: option.splits)
  have "boot d st favs = (if cur_page s2 = catalog then schedule 100 InitApply s2 else s2)"
    by (simp add: boot_def s0_def s2_def Let_def)
  with ok2 show ?thesis by simp
qed

lemma reachable_ui_ok: "reachable d st s \<Longrightarrow> ui_ok d s"
  by (induction rule: reachable_invariant) (simp_all add: ui_ok_boot ui_ok_handle ui_ok_fire)

section \<open>The fade-out class is never removed\<close>

text \<open>Line 98 adds \<open>fade-out\<close> to every card of the registry; no line of the script
  removes it.\<close>

definition fade_ok :: "dom \<Rightarrow> app \<Rightarrow> bool" where
  "fade_ok d s \<longleftrightarrow> (grid_bound s \<longrightarrow> set (cards0 d) \<subseteq> faded s)"

lemma faded_apply_eq [simp]:
  "faded (applyFiltersAndSort d s) = (if grid_bound s then faded s \<union> set (cards0 d) else faded s)"
  by (simp add: applyFiltersAndSort_def schedule_def Let_def)

lemma fade_ok_showPage: "fade_ok d s \<Longrightarrow> fade_ok d (showPage d p s)"
  by (auto simp: showPage_eq Let_def fade_ok_def)

lemma fade_ok_updateAndSave: "fade_ok d s \<Longrightarrow> fade_ok d (updateAndSave d so fo s)"
  by (auto simp: updateAndSave_saved Let_def saved_def fade_ok_def)

lemma fade_ok_fav_click: "fade_ok d s \<Longrightarrow> fade_ok d (fav_click d i s)"
  by (simp add: fav_click_def fade_ok_def split: option.splits)

lemma fade_ok_handle: "fade_ok d s \<Longrightarrow> fade_ok d (handle d s e)"
proof (cases e)
  case (SearchInput v)
  moreover assume ok: "fade_ok d s"
  then have "fade_ok d (s\<lparr>search_val := v\<rparr>)" by (simp add: fade_ok_def)
  ultimately show ?thesis using ok by (simp add: fade_ok_updateAndSave)
qed (simp_all add: fade_ok_updateAndSave fade_ok_showPage fade_ok_fav_click
    nav_click_inv [where P = "fade_ok d"])

lemma fade_ok_run_task: "fade_ok d s \<Longrightarrow> fade_ok d (run_task d tk s)"
  by (cases tk) (simp_all add: fade_ok_def render_def)

lemma fade_ok_fire:
  assumes "fire d s = Some s'" and "fade_ok d s"
  shows "fade_ok d s'"
proof -
  obtain due tk rest where ts: "timers s = (due, tk) # rest"
    using assms(1) by (cases "timers s") (auto simp: fire_def)
  have "fade_ok d (s\<lparr>timers := rest, clock := max (clock s) due\<rparr>)"
    using assms(2) by (simp add: fade_ok_def)
  then have "fade_ok d (run_task d tk (s\<lparr>timers := rest, clock := max (clock s) due\<rparr>))"
    by (rule fade_ok_run_task)
  then show ?thesis using assms(1) ts by (simp add: fire_def)
qed

lemma fade_ok_frame [simp]:
  "fade_ok d (restore_search d s) = fade_ok d s"
  "fade_ok d (schedule n tk s) = fade_ok d s"
  by (simp_all add: fade_ok_def)

lemma fade_ok_boot: "fade_ok d (boot d st favs)"
proof -
  let ?s0 = "updateUI d (updateFavoritesCount d (init_state d st favs))"
  have "fade_ok d ?s0" by (simp add: fade_ok_def init_state_def)
  then have "\<And>p. fade_ok d (showPage d p ?s0)" by (rule fade_ok_showPage)
  then show ?thesis by (simp add: boot_def Let_def)
qed

lemma reachable_fade_ok: "reachable d st s \<Longrightarrow> fade_ok d s"
proof (induction rule: reachable_invariant)
  case (clock s dt)
  then show ?case by (simp add: fade_ok_def)
qed (simp_all add: fade_ok_boot fade_ok_handle fade_ok_fire)

lemma updateAndSave_highlight [simp]:
  "filter_active (updateAndSave d so fo s) = filter_active s"
  "sort_active (updateAndSave d so fo s) = sort_active s"
  by (simp_all add: updateAndSave_saved saved_def Let_def applyFiltersAndSort_def schedule_def)

section \<open>The class flags: one per element\<close>

text \<open>The \<open>active\<close> flags of the anchors, the filter buttons and the sort buttons are
  lists with one entry per element. Only \<open>showPage\<close> writes the anchors' flags and only
  \<open>updateUI\<close> the buttons'.\<close>

lemma link_active_frame [simp]:
  "link_active (applyFiltersAndSort d s) = link_active s"
  "link_active (render vs s) = link_active s"
  "link_active (updateAndSave d so fo s) = link_active s"
  "link_active (toggleFavorite d i s) = link_active s"
  "link_active (restore_search d s) = link_active s"
  "link_active (schedule n tk s) = link_active s"
  "link_active (updateUI d s) = link_active s"
  "link_active (updateFavoritesCount d s) = link_active s"
  by (simp_all add: applyFiltersAndSort_def render_def updateAndSave_saved saved_def toggleFavorite_def
      updateUI_def updateFavoritesCount_def restore_search_def schedule_def Let_def split: option.splits)

lemma button_flags_frame [simp]:
  "filter_active (applyFiltersAndSort d s) = filter_active s"
  "sort_active (applyFiltersAndSort d s) = sort_active s"
  "filter_active (render vs s) = filter_active s"
  "sort_active (render vs s) = sort_active s"
  "filter_active (showPage d p s) = filter_active s"
  "sort_active (showPage d p s) = sort_active s"
  "filter_active (restore_search d s) = filter_active s"
  "sort_active (restore_search d s) = sort_active s"
  "filter_active (schedule n tk s) = filter_active s"
  "sort_active (schedule n tk s) = sort_active s"
  "filter_active (updateFavoritesCount d s) = filter_active s"
  "sort_active (updateFavoritesCount d s) = sort_active s"
  "filter_active (updateAndSave d so fo s) = filter_active s"
  "sort_active (updateAndSave d so fo s) = sort_active s"
  by (simp_all add: applyFiltersAndSort_def render_def showPage_eq updateAndSave_saved saved_def
      restore_search_def schedule_def updateFavoritesCount_def Let_def split: option.splits)

lemma button_flags_updateUI [simp]:
  "length (filter_active (updateUI d s)) = length (filter_btns d)"
  "length (sort_active (updateUI d s)) = length (sort_btns d)"
  by (simp_all add: updateUI_def)

lemma flags_run_task [simp]:
  "link_active (run_task d tk s) = link_active s"
  "filter_active (run_task d tk s) = filter_active s"
  "sort_active (run_task d tk s) = sort_active s"
  by (cases tk; simp)+

lemma link_active_showPage:
  "link_active (showPage d p s) = map2 (link_flag p) (links d) (link_active s)"
  by (simp add: showPage_eq Let_def)

definition shape_ok :: "dom \<Rightarrow> app \<Rightarrow> bool" where
  "shape_ok d s \<longleftrightarrow> length (link_active s) = length (links d) \<and>
     length (filter_active s) = length (filter_btns d) \<and> length (sort_active s) = length (sort_btns d)"

lemma shape_ok_fav_click: "shape_ok d s \<Longrightarrow> shape_ok d (fav_click d i s)"
  by (simp add: shape_ok_def fav_click_def toggleFavorite_def Let_def split: option.splits)

lemma shape_ok_showPage: "shape_ok d s \<Longrightarrow> shape_ok d (showPage d p s)"
  by (simp add: shape_ok_def link_active_showPage)

lemma shape_ok_handle: "shape_ok d s \<Longrightarrow> shape_ok d (handle d s e)"
proof (cases e)
  case (FavClick i)
  moreover assume "shape_ok d s"
  ultimately show ?thesis by (simp add: shape_ok_fav_click)
next
  case (CardKey i k)
  moreover assume "shape_ok d s"
  ultimately show ?thesis by (simp add: shape_ok_fav_click)
next
  case (NavClick i)
  moreover assume "shape_ok d s"
  ultimately show ?thesis by (simp add: nav_click_inv [where P = "shape_ok d"] shape_ok_showPage)
qed (simp_all add: shape_ok_def link_active_showPage)

lemma shape_ok_fire: "fire d s = Some s' \<Longrightarrow> shape_ok d s \<Longrightarrow> shape_ok d s'"
  by (auto simp: fire_def shape_ok_def split: list.splits)

lemma shape_ok_boot: "shape_ok d (boot d st favs)"
  by (simp add: boot_def Let_def shape_ok_def link_active_showPage init_state_def)

lemma reachable_shape_ok: "reachable d st s \<Longrightarrow> shape_ok d s"
proof (induction rule: reachable_invariant)
  case (clock s dt)
  then show ?case by (simp add: shape_ok_def)
qed (simp_all add: shape_ok_boot shape_ok_handle shape_ok_fire)

end
