(* ===== verification/Interleaving.thy ===== *)
theory Interleaving
  imports Convergence
begin

text \<open>
  The order in which the deferred callbacks of \<open>src/script.js\<close> run against the user's
  clicks. No call of \<open>setTimeout\<close> is ever cancelled (lines 100 and 224), so a render
  scheduled by an earlier \<open>applyFiltersAndSort\<close> still runs after a later call has
  changed the filter, and the render that \<open>showPage\<close> schedules at start-up (line 216)
  was computed before the search box is restored (lines 218--220). The lemmas locate a
  pending render in the queue, show where \<open>insert_timer\<close> puts a later timer, and fire
  the queue up to a given render with \<open>run\<close>.
\<close>

section \<open>Positions in the timer queue\<close>

text \<open>A timer due no earlier than a pending one and than everything before it joins
  behind it.\<close>

lemma insert_timer_behind:
  assumes "\<forall>u \<in> set pre. fst u \<le> fst t" and "fst r \<le> fst t"
  shows "insert_timer t (pre @ r # post) = pre @ r # insert_timer t post"
  using assms by (induction pre) auto

text \<open>The queue after \<open>updateAndSave\<close> (lines 142--155): one more render, of the new
  sort mode and filter, when the grid is bound on the catalog page.\<close>

lemma timers_updateAndSave:
  "timers (updateAndSave d so fo s) =
     (if cur_page s = catalog \<and> grid_bound s
      then insert_timer (clock s + 200,
             Render (visible_cards (search_arg d s) (case fo of None \<Rightarrow> cur_filter s | Some v \<Rightarrow> v)
                       (case so of None \<Rightarrow> cur_sort s | Some v \<Rightarrow> v) (cards0 d))) (timers s)
      else timers s)"
  by (simp add: updateAndSave_def Let_def timers_apply search_arg_def)

text \<open>Start-up on the catalog page (lines 214--228): \<open>showPage\<close> schedules the render
  of the pipeline on the search box as the markup fills it, due at 200 ms; the
  re-application of line 224 is due at 100 ms.\<close>

lemma boot_timers_catalog:
  assumes "get_or st key_page ''home'' = catalog" and "has_grid d"
  shows "timers (boot d st favs) =
           [(100, InitApply),
            (200, Render (visible_cards (if has_search d then Some (search_init d) else None)
                            (get_or st key_filter ''all'') (get_or st key_sort ''default'') (cards0 d)))]"
    and "clock (boot d st favs) = 0"
  using assms
  by (simp_all add: boot_def Let_def init_state_def showPage_eq schedule_def timers_apply search_arg_def)

section \<open>Firing the queue up to a render\<close>

text \<open>The callbacks ahead of a pending render run first; a start-up re-application among
  them schedules its render behind it, since the clock never goes back. When the render
  has run, the grid shows its cards, the later timers are still pending, and neither the
  filter nor the page has changed.\<close>

lemma fire_through:
  assumes "timers s = pre @ (n, Render vs) # post"
    and "\<forall>u \<in> set pre. fst u \<le> n" and "n \<le> clock s + 200"
  shows "\<exists>s'. run d s (replicate (Suc (length pre)) Tick) = Some s' \<and> grid_children s' = vs \<and>
           set post \<subseteq> set (timers s') \<and> cur_filter s' = cur_filter s \<and> cur_page s' = cur_page s"
  using assms
proof (induction pre arbitrary: s post)
  case Nil
  then show ?case by (simp add: fire_def)
next
  case (Cons u pre)
  obtain due tk where u: "u = (due, tk)" by fastforce
  define s1 where "s1 = s\<lparr>timers := pre @ (n, Render vs) # post, clock := max (clock s) due\<rparr>"
  have f: "fire d s = Some (run_task d tk s1)" using Cons.prems(1) u by (simp add: fire_def s1_def)
  have c1: "n \<le> clock s1 + 200" and p1: "\<forall>x \<in> set pre. fst x \<le> n"
    using Cons.prems(2,3) by (auto simp: s1_def)
  have "\<exists>ins. timers (run_task d tk s1) = pre @ (n, Render vs) # ins \<and> set post \<subseteq> set ins \<and>
          cur_filter (run_task d tk s1) = cur_filter s \<and> cur_page (run_task d tk s1) = cur_page s \<and>
          clock (run_task d tk s1) = clock s1"
  proof (cases tk)
    case (Render ws)
    then show ?thesis by (simp add: s1_def)
  next
    case InitApply
    have "\<forall>x \<in> set pre. fst x \<le> clock s1 + 200" using p1 c1 by auto
    with c1 show ?thesis using InitApply by (auto simp: timers_apply insert_timer_behind s1_def)
  qed
  then obtain ins where t: "timers (run_task d tk s1) = pre @ (n, Render vs) # ins"
    and sub: "set post \<subseteq> set ins"
    and fp: "cur_filter (run_task d tk s1) = cur_filter s" "cur_page (run_task d tk s1) = cur_page s"
    and c: "clock (run_task d tk s1) = clock s1" by blast
  have "n \<le> clock (run_task d tk s1) + 200" using c c1 by simp
  from Cons.IH [OF t p1 this] obtain s' where
    "run d (run_task d tk s1) (replicate (Suc (length pre)) Tick) = Some s'" and "grid_children s' = vs"
    and "set ins \<subseteq> set (timers s')" and "cur_filter s' = cur_filter (run_task d tk s1)"
    and "cur_page s' = cur_page (run_task d tk s1)" by blast
  with f sub fp show ?case by auto
qed

end
