(* ===== verification/Spec2Isabelle.thy ===== *)
theory Spec2Isabelle
  imports Display Interleaving
begin

text \<open>
  \<^bold>\<open>A verified model of \<open>src/script.js\<close>.\<close> The script is one
  \<open>DOMContentLoaded\<close> handler (229 lines) for a static catalog page: it filters, sorts
  and re-renders the product cards, keeps a list of favourites, switches between page
  sections and persists all of it in \<open>localStorage\<close>. Its parts, as spec section 2 names
  them, and the theories that model them:

  \<^item> \<^bold>\<open>Prelude\<close>: the JavaScript built-ins the script calls on strings and arrays
    (\<open>trim\<close>, \<open>toLowerCase\<close>, \<open>includes\<close>, \<open>indexOf\<close>, \<open>splice\<close>) as executable
    functions, with their characterisations in the HOL list library. A character is a
    code point \<open>U+0000\<close>--\<open>U+00FF\<close>; white space (no-break space included) and
    lower-case mapping (Latin-1 capitals included) are JavaScript's on that range.
  \<^item> \<^bold>\<open>Store\<close> (Persistent Store): \<open>localStorage\<close> as a map \<open>storage\<close>, the five
    keys and the read \<open>getItem(k) || d\<close> (\<open>get_or\<close>).
  \<^item> \<^bold>\<open>Json\<close> (Persistent Store, lines 18 and 59): \<open>JSON.stringify\<close> of the
    favourites (\<open>json_stringify\<close>) and \<open>JSON.parse\<close> of any text (\<open>json_parse\<close>): a
    lexer \<open>lex\<close> and a parser \<open>prun\<close> with an explicit stack, one token per step, so
    both terminate structurally or by the length of the text; a syntax error is the value
    \<open>JsonSyntaxError\<close>. \<open>parse_favorites\<close> reads the favourites list or says why it
    cannot; the round trip \<open>json_roundtrip\<close> carries C14 and C17.
  \<^item> \<^bold>\<open>Cards\<close> (Card Registry, line 13): the \<open>card\<close> record, JavaScript numbers
    \<open>jsnum\<close> (finite, infinite, \<open>NaN\<close>), and \<open>Array.prototype.sort\<close> with a
    comparator as the stable insertion sort \<open>js_sort\<close>, equal to the library's
    \<open>sort_key\<close> when no price is \<open>NaN\<close>.
  \<^item> \<^bold>\<open>State\<close>: the record \<open>dom\<close> of the elements the script finds at start-up
    (lines 3--13, with the \<open>active\<close> classes of the markup) and the record \<open>app\<close> of
    everything it changes: the closure variables of lines 2 and 16--19, the parts of the
    document it writes, \<open>localStorage\<close>, and the browser's timer queue with a clock
    (\<open>insert_timer\<close>, \<open>schedule\<close> = \<open>setTimeout\<close>).
  \<^item> \<^bold>\<open>Pipeline\<close> (lines 65--116): \<open>search_step\<close>, \<open>category_step\<close>,
    \<open>sort_step\<close> and their composition \<open>visible_cards\<close>; \<open>applyFiltersAndSort\<close> with
    its guard, the \<open>fade-out\<close> class and the 200 ms timer; \<open>render\<close>, the deferred
    callback. C1--C9.
  \<^item> \<^bold>\<open>Favorites\<close> (lines 42--62, 119--139): \<open>updateFavoritesCount\<close>,
    \<open>updateUI\<close>, \<open>toggleFavorite\<close>. C10--C16, C29 and C30.
  \<^item> \<^bold>\<open>View\<close> (lines 22--39): \<open>showPage\<close>. C33.
  \<^item> \<^bold>\<open>Events\<close> (lines 142--228): \<open>updateAndSave\<close>, every listener as one case of
    \<open>handle\<close> on a \<open>ui_event\<close>, the timer callbacks \<open>run_task\<close> (the render, or
    \<open>init_apply\<close> of lines 224--227), start-up \<open>init_state\<close>, \<open>boot\<close> and
    \<open>startup\<close> (which fails when \<open>JSON.parse\<close> throws), the navigation and
    favourite listeners \<open>nav_click\<close> and \<open>fav_click\<close>, the event loop \<open>step\<close>
    (a user event after some milliseconds, allowed only while no timer is overdue, or the
    next timer), its runs \<open>run\<close>, the reachable states \<open>reachable\<close>, and \<open>drain\<close>,
    which fires every pending timer.
  \<^item> \<^bold>\<open>Frame\<close>, \<^bold>\<open>Persistence\<close>, \<^bold>\<open>Convergence\<close>, \<^bold>\<open>Display\<close>,
    \<^bold>\<open>Interleaving\<close>: the invariants and orderings of the whole program. Frame holds
    the frame lemmas and \<open>reachable_invariant\<close>, which lifts a property kept by
    start-up, every listener, the clock and every timer callback to all reachable states.
    Persistence proves write-through (\<open>persisted\<close>); Convergence proves that the queue
    is ordered and that the last pending render is the current pipeline result
    (\<open>render_inv\<close>), and that \<open>drain\<close> ends; Display proves that glyphs, counter and
    badge agree with the favourites (\<open>ui_ok\<close>), that \<open>fade-out\<close> is never removed
    (\<open>fade_ok\<close>), and that the class flags stay one per element (\<open>shape_ok\<close>);
    Interleaving locates a pending render in the queue and fires the queue up to it
    (\<open>fire_through\<close>), and computes the queue start-up leaves on the catalog page.
  \<^item> This theory: the properties that span the components (C17--C28, C31, C32):
    persistence across reloads, convergence of the deferred renders and termination of
    the timer queue, consistency of glyphs and badge, navigation, the effects the script
    never undoes, the timer bound, and the order of renders against clicks and start-up
    (no render is cancelled; the first render at start-up ignores the restored search).

  \<^bold>\<open>Assumptions.\<close> \<open>dom_ok\<close>: sort and filter buttons carry non-empty values and the
  search box starts empty (needed for C17, since \<open>||\<close> drops an empty stored value).
  \<open>btn_ids_ok\<close>: a card's favourite button carries the card's id (needed for C21, since
  the render reads the card's id and \<open>updateUI\<close> the button's). Every section id is an
  element id (needed for C33). Page ids hold no quote, so the selector of line 30 is
  well-formed. Every \<open>.btn-fav\<close> sits in a \<open>.product-card\<close>, carries a
  \<open>data-id\<close>, and every card starts in \<open>#products-grid\<close>: \<open>fav_btn\<close> of a card is
  the \<open>data-id\<close> of its button, \<open>None\<close> when it has none. The environment may send any
  listener's event at any time no timer is overdue, also to a card the last render
  detached or to a hidden page; this over-approximates what a user can do, so the
  invariants hold a fortiori, and the witnesses use only events a user can send.

  \<^bold>\<open>Time.\<close> Timers are due at \<open>clock + delay\<close> and fire in due order, FIFO among
  equal due times; no bound or fuel is needed: \<open>drain\<close> terminates by the measure
  \<open>timer_weight\<close> (a render weighs 1, the start-up re-application, which schedules a
  render, weighs 2), and \<open>fire_through\<close> needs one tick per callback ahead of the render.

  \<^bold>\<open>Not modelled.\<close> \<open>parseFloat\<close> of the price attribute (the card holds its
  result); CSS, animation and layout; \<open>aria-label\<close> text; \<open>preventDefault\<close> and
  \<open>stopPropagation\<close> (no other listener observes them); characters above
  \<open>U+00FF\<close> (Cyrillic titles among them) with their white space and case mapping;
  what the script does after \<open>JSON.parse\<close> returns a value that is not an array of
  strings (\<open>null\<close>, a number, an object, a string, \<open>[1]\<close> or any array holding
  other values): it runs on with that value (an array of numbers works like a list of
  favourites that never match a card, other values mostly throw a \<open>TypeError\<close> at
  line 43 or 129 after the listeners are attached), while the model stops with
  \<open>NotStringList\<close>, since a faithful model would need \<open>Number.prototype.toString\<close>
  for \<open>JSON.stringify\<close>; a \<open>.btn-fav\<close> without \<open>data-id\<close>, whose click pushes
  \<open>undefined\<close> (stored as \<open>null\<close>); favourite buttons outside the cards and cards
  outside the grid at start-up; markup that changes after start-up; a page id holding a
  quote, which makes the selector of line 30 throw.
\<close>

section \<open>Persistence across reloads\<close>

text \<open>C17. Persistence round trip: in every state a run can reach, starting the script
  again on the stored preferences (a reload) succeeds and restores the sort mode, the
  filter, the favourites, the page and the search text.\<close>

theorem reload_restores_view:
  assumes "reachable d st s" and "dom_ok d"
  shows "\<exists>s'. startup d (store s) = Inr s' \<and>
           cur_sort s' = cur_sort s \<and> cur_filter s' = cur_filter s \<and> favorites s' = favorites s \<and>
           cur_page s' = cur_page s \<and> search_val s' = search_val s"
proof -
  have p: "persisted d s" using assms by (rule reachable_persisted)
  then have "startup d (store s) = Inr (boot d (store s) (favorites s))"
    by (simp add: persisted_def startup_def)
  with p show ?thesis by (auto simp: boot_fields persisted_def)
qed

theorem reload_restores_view_witness:
  "reachable demo_dom Map.empty (handle demo_dom (boot demo_dom Map.empty []) (FilterClick 1)) \<and>
   dom_ok demo_dom \<and>
   (\<exists>s'. startup demo_dom (store (handle demo_dom (boot demo_dom Map.empty []) (FilterClick 1))) = Inr s' \<and>
      cur_sort s' = ''default'' \<and> cur_filter s' = ''a'' \<and> favorites s' = [] \<and>
      cur_page s' = ''home'' \<and> search_val s' = [])"
proof -
  let ?s0 = "boot demo_dom Map.empty []"
  let ?s1 = "handle demo_dom ?s0 (FilterClick 1)"
  have r0: "reachable demo_dom Map.empty ?s0"
    by (rule reachable.start) (simp add: startup_def get_or_def)
  have t0: "timers ?s0 = []" and c0: "clock ?s0 = 0"
    by (simp_all add: boot_def Let_def init_state_def get_or_def catalog_def showPage_def)
  have "?s0\<lparr>clock := clock ?s0\<rparr> = ?s0" by simp
  with c0 have e: "?s0\<lparr>clock := 0\<rparr> = ?s0" by simp
  have "step demo_dom ?s0 (User 0 (FilterClick 1)) = Some ?s1"
    by (simp only: step.simps t0 c0 add_0_right e) simp
  with r0 have r1: "reachable demo_dom Map.empty ?s1" by (rule reachable.advance)
  have ok: "dom_ok demo_dom" by (simp add: dom_ok_def)
  have v: "cur_sort ?s1 = ''default''" "cur_filter ?s1 = ''a''" "favorites ?s1 = []"
    "cur_page ?s1 = ''home''" "search_val ?s1 = []"
    by (simp_all add: boot_fields get_or_def stored_search_def)
  show ?thesis using r1 ok reload_restores_view [OF r1 ok] v by auto
qed

section \<open>The deferred render\<close>

text \<open>A start-up on the catalog page: two timers are pending, the render of line 100 and
  the re-application of line 224.\<close>

abbreviation demo_catalog_boot :: app where
  "demo_catalog_boot \<equiv> boot demo_dom [key_page \<mapsto> ''catalog''] []"

lemma demo_catalog_boot_reachable: "reachable demo_dom [key_page \<mapsto> ''catalog''] demo_catalog_boot"
  by (rule reachable.start) (simp add: startup_def get_or_def)

lemma demo_catalog_page: "get_or [key_page \<mapsto> ''catalog''] key_page ''home'' = catalog"
  by (simp add: get_or_def catalog_def)

lemma demo_catalog_boot_fields:
  "cur_page demo_catalog_boot = catalog" "grid_bound demo_catalog_boot"
  by (simp_all add: boot_def Let_def init_state_def demo_catalog_page)

text \<open>C18. Once no timer is pending, a grid bound on the catalog page shows exactly the
  pipeline's result for the current sort mode, filter and search text: the last render
  scheduled is the last to run, so the latest call of \<open>applyFiltersAndSort\<close> wins.\<close>

theorem drained_grid_current:
  assumes "reachable d st s" and "timers s = []" and "cur_page s = catalog" and "grid_bound s"
  shows "grid_children s = visible_cards (search_arg d s) (cur_filter s) (cur_sort s) (cards0 d)"
proof -
  have "render_inv d s" using assms(1) by (rule reachable_render_inv)
  with assms(2-4) show ?thesis by (simp add: drained_current [unfolded current_view_def])
qed

theorem drained_grid_current_witness:
  "reachable demo_dom [key_page \<mapsto> ''catalog''] (drain demo_dom demo_catalog_boot) \<and>
   timers (drain demo_dom demo_catalog_boot) = [] \<and>
   cur_page (drain demo_dom demo_catalog_boot) = catalog \<and> grid_bound (drain demo_dom demo_catalog_boot) \<and>
   grid_children (drain demo_dom demo_catalog_boot) =
     visible_cards (search_arg demo_dom (drain demo_dom demo_catalog_boot))
       (cur_filter (drain demo_dom demo_catalog_boot)) (cur_sort (drain demo_dom demo_catalog_boot))
       (cards0 demo_dom)"
proof -
  have r: "reachable demo_dom [key_page \<mapsto> ''catalog''] (drain demo_dom demo_catalog_boot)"
    and t: "timers (drain demo_dom demo_catalog_boot) = []"
    using reachable_drain [OF demo_catalog_boot_reachable] by simp_all
  have "same_view demo_catalog_boot (drain demo_dom demo_catalog_boot)"
    using same_view_drain [OF reachable_render_inv [OF demo_catalog_boot_reachable]] by simp
  then have p: "cur_page (drain demo_dom demo_catalog_boot) = catalog"
    and b: "grid_bound (drain demo_dom demo_catalog_boot)"
    using demo_catalog_boot_fields by (simp_all add: same_view_def)
  show ?thesis using r t p b drained_grid_current [OF r t p b] by simp
qed

text \<open>C19. Draining terminates: firing the pending timers one after the other from a
  reachable state ends, in a reachable state, with no timer pending.\<close>

theorem drain_completes:
  assumes "reachable d st s"
  shows "reachable d st (drain d s) \<and> timers (drain d s) = []"
  using assms by (rule reachable_drain)

theorem drain_completes_witness:
  "reachable demo_dom [key_page \<mapsto> ''catalog''] demo_catalog_boot \<and>
   reachable demo_dom [key_page \<mapsto> ''catalog''] (drain demo_dom demo_catalog_boot) \<and>
   timers (drain demo_dom demo_catalog_boot) = []"
  using demo_catalog_boot_reachable drain_completes [OF demo_catalog_boot_reachable] by simp

text \<open>C20. Eventual consistency: from any reachable state on the catalog page with a
  bound grid, once the pending callbacks have run the grid shows the pipeline's result for
  the state's current sort mode, filter and search text.\<close>

theorem drain_shows_current:
  assumes "reachable d st s" and "cur_page s = catalog" and "grid_bound s"
  shows "grid_children (drain d s) = visible_cards (search_arg d s) (cur_filter s) (cur_sort s) (cards0 d)"
  using drain_current [OF assms] by (simp add: current_view_def)

theorem drain_shows_current_witness:
  "reachable demo_dom [key_page \<mapsto> ''catalog''] demo_catalog_boot \<and>
   cur_page demo_catalog_boot = catalog \<and> grid_bound demo_catalog_boot \<and>
   grid_children (drain demo_dom demo_catalog_boot) =
     visible_cards (search_arg demo_dom demo_catalog_boot) (cur_filter demo_catalog_boot)
       (cur_sort demo_catalog_boot) (cards0 demo_dom)"
  using demo_catalog_boot_reachable demo_catalog_boot_fields
    drain_shows_current [OF demo_catalog_boot_reachable demo_catalog_boot_fields] by simp

section \<open>Consistency of the favourite controls\<close>

text \<open>C21. In every reachable state, when each card's favourite button carries the card's
  own id, the button of every card in the grid shows the active glyph exactly when its id
  is a favourite: the render callback and \<open>updateUI\<close> never leave a stale glyph on an
  attached card.\<close>

theorem glyphs_consistent:
  assumes "reachable d st s" and "btn_ids_ok d" and "c \<in> set (grid_children s)" and "fav_btn c = Some b"
  shows "c \<in> fav_shown s \<longleftrightarrow> b \<in> set (favorites s)"
proof -
  have "glyphs_ok s" using reachable_ui_ok [OF assms(1)] assms(2) by (simp add: ui_ok_def)
  with assms(3,4) show ?thesis by (force simp: glyphs_ok_def)
qed

lemma demo_catalog_boot_grid: "grid_children demo_catalog_boot = [demo_phone, demo_case]"
  by (simp add: boot_def Let_def init_state_def)

theorem glyphs_consistent_witness:
  "reachable demo_dom [key_page \<mapsto> ''catalog''] demo_catalog_boot \<and> btn_ids_ok demo_dom \<and>
   demo_phone \<in> set (grid_children demo_catalog_boot) \<and> fav_btn demo_phone = Some ''1'' \<and>
   (demo_phone \<in> fav_shown demo_catalog_boot \<longleftrightarrow> ''1'' \<in> set (favorites demo_catalog_boot))"
proof -
  have b: "btn_ids_ok demo_dom" by (simp add: btn_ids_ok_def)
  have c: "demo_phone \<in> set (grid_children demo_catalog_boot)" by (simp add: demo_catalog_boot_grid)
  show ?thesis
    using demo_catalog_boot_reachable b c
      glyphs_consistent [OF demo_catalog_boot_reachable b c, of "''1''"] by simp
qed

text \<open>C22. In every reachable state the counter shows the number of favourites and the
  badge shows it in the accent colour exactly when there is at least one (for the
  elements the page has).\<close>

theorem badge_consistent:
  assumes "reachable d st s"
  shows "(has_count d \<longrightarrow> count_shown s = Some (length (favorites s))) \<and>
         (has_badge d \<longrightarrow> badge_shown s = Some (length (favorites s),
                                           if favorites s = [] then Neutral else Accent))"
  using reachable_ui_ok [OF assms] by (simp add: ui_ok_def badge_ok_def)

theorem badge_consistent_witness:
  "reachable demo_dom [key_page \<mapsto> ''catalog''] demo_catalog_boot \<and>
   badge_shown demo_catalog_boot = Some (0, Neutral)"
  using demo_catalog_boot_reachable badge_consistent [OF demo_catalog_boot_reachable] boot_fields(3)
  by simp

section \<open>Navigation and reload on the catalog\<close>

text \<open>C23. Clicking the go-to-catalog button (lines 194--200) on a page with a product
  grid leads, once the pending callbacks have run, to the catalog page with the grid
  showing the pipeline's result for the sort mode, filter and search text in force at the
  click.\<close>

theorem go_catalog_shows_view:
  assumes "reachable d st s" and "has_go_btn d" and "has_grid d"
    and "step d s (User dt GoCatalog) = Some s'"
  shows "cur_page (drain d s') = catalog \<and>
         grid_children (drain d s') = visible_cards (search_arg d s) (cur_filter s) (cur_sort s) (cards0 d)"
proof -
  from assms(4) have s': "s' = showPage d catalog (s\<lparr>clock := clock s + dt\<rparr>)"
    by (cases rule: step_SomeE) (simp_all add: assms(2))
  have r: "reachable d st s'" using assms(1,4) by (rule reachable.advance)
  have p: "cur_page s' = catalog" and b: "grid_bound s'" using s' assms(3) by simp_all
  have "grid_children (drain d s') = current_view d s'" using r p b by (rule drain_current)
  moreover have "cur_page (drain d s') = catalog"
    using same_view_drain [OF reachable_render_inv [OF r]] p by (simp add: same_view_def)
  ultimately show ?thesis using s' by (simp add: current_view_def search_arg_def)
qed

lemma demo_home_boot_reachable: "reachable demo_dom Map.empty (boot demo_dom Map.empty [])"
  by (rule reachable.start) (simp add: startup_def get_or_def)

lemma demo_home_boot_idle: "timers (boot demo_dom Map.empty []) = []"
  by (simp add: boot_def Let_def init_state_def get_or_def catalog_def showPage_def)

theorem go_catalog_shows_view_witness:
  "reachable demo_dom Map.empty (boot demo_dom Map.empty []) \<and> has_go_btn demo_dom \<and> has_grid demo_dom \<and>
   step demo_dom (boot demo_dom Map.empty []) (User 0 GoCatalog) =
     Some (showPage demo_dom catalog (boot demo_dom Map.empty [])) \<and>
   grid_children (drain demo_dom (showPage demo_dom catalog (boot demo_dom Map.empty []))) =
     visible_cards (Some []) ''all'' ''default'' [demo_phone, demo_case]"
proof -
  let ?s = "boot demo_dom Map.empty []"
  have st: "step demo_dom ?s (User 0 GoCatalog) = Some (showPage demo_dom catalog ?s)"
    by (simp add: demo_home_boot_idle)
  have v: "cur_filter ?s = ''all''" "cur_sort ?s = ''default''" "search_arg demo_dom ?s = Some []"
    by (simp_all add: boot_fields get_or_def search_arg_def stored_search_def)
  show ?thesis
    using demo_home_boot_reachable st v
      go_catalog_shows_view [OF demo_home_boot_reachable _ _ st] by simp
qed

text \<open>C24. Reload on the catalog: when the stored page is the catalog and the page has a
  product grid, once the start-up callbacks have run the grid shows the pipeline's result
  for the stored sort mode, filter and search text.\<close>

theorem reload_catalog_view:
  assumes "startup d st = Inr s" and "get_or st key_page ''home'' = catalog" and "has_grid d"
  shows "grid_children (drain d s) =
           visible_cards (if has_search d then Some (stored_search d st) else None)
             (get_or st key_filter ''all'') (get_or st key_sort ''default'') (cards0 d)"
proof -
  obtain favs where s: "s = boot d st favs" using assms(1) by (auto simp: startup_Inr)
  have r: "reachable d st s" using assms(1) by (rule reachable.start)
  have p: "cur_page s = catalog" and b: "grid_bound s"
    using s assms(2,3) by (simp_all add: boot_fields boot_grid_bound)
  have "grid_children (drain d s) = current_view d s" using r p b by (rule drain_current)
  then show ?thesis using s by (simp add: current_view_def search_arg_def boot_fields)
qed

theorem reload_catalog_view_witness:
  "startup demo_dom [key_page \<mapsto> ''catalog''] = Inr demo_catalog_boot \<and>
   get_or [key_page \<mapsto> ''catalog''] key_page ''home'' = catalog \<and> has_grid demo_dom \<and>
   grid_children (drain demo_dom demo_catalog_boot) = visible_cards (Some []) ''all'' ''default'' [demo_phone, demo_case]"
proof -
  have u: "startup demo_dom [key_page \<mapsto> ''catalog''] = Inr demo_catalog_boot"
    by (simp add: startup_def get_or_def)
  show ?thesis
    using u demo_catalog_page reload_catalog_view [OF u demo_catalog_page]
    by (simp add: get_or_def stored_search_def)
qed

section \<open>Effects the script never undoes\<close>

text \<open>C25. In every reachable state with a bound grid, every card of the registry carries
  the \<open>fade-out\<close> class, the cards the grid shows included: line 98 adds it and no
  line removes it.\<close>

theorem fade_out_persists:
  assumes "reachable d st s" and "grid_bound s"
  shows "set (cards0 d) \<subseteq> faded s"
  using reachable_fade_ok [OF assms(1)] assms(2) by (simp add: fade_ok_def)

theorem fade_out_persists_witness:
  "reachable demo_dom [key_page \<mapsto> ''catalog''] (drain demo_dom demo_catalog_boot) \<and>
   grid_bound (drain demo_dom demo_catalog_boot) \<and>
   demo_phone \<in> faded (drain demo_dom demo_catalog_boot)"
proof -
  have r: "reachable demo_dom [key_page \<mapsto> ''catalog''] (drain demo_dom demo_catalog_boot)"
    using reachable_drain [OF demo_catalog_boot_reachable] by simp
  have "same_view demo_catalog_boot (drain demo_dom demo_catalog_boot)"
    using same_view_drain [OF reachable_render_inv [OF demo_catalog_boot_reachable]] by simp
  then have b: "grid_bound (drain demo_dom demo_catalog_boot)"
    using demo_catalog_boot_fields by (simp add: same_view_def)
  show ?thesis using r b fade_out_persists [OF r b] by simp
qed

text \<open>C26. A click on a filter or a sort button leaves the buttons' \<open>active\<close> classes
  as they were: \<open>updateAndSave\<close> does not call \<open>updateUI\<close>, so the highlighted
  button is the one of the last start-up or favourite toggle.\<close>

theorem click_keeps_highlight:
  "filter_active (handle d s (FilterClick i)) = filter_active s \<and>
   sort_active (handle d s (SortClick j)) = sort_active s"
  by simp

section \<open>Navigation links\<close>

text \<open>C27. In every reachable state, after \<open>showPage p\<close> a navigation link is active
  exactly when its \<open>href\<close> is \<open>#p\<close>.\<close>

theorem nav_links_active:
  assumes "reachable d st s" and "i < length (links d)" and "in_nav (links d ! i)"
  shows "link_active (showPage d p s) ! i \<longleftrightarrow> href (links d ! i) = Some (CHR ''#'' # p)"
  using reachable_shape_ok [OF assms(1)] assms(2,3)
  by (simp add: shape_ok_def link_active_showPage link_flag_def)

theorem nav_links_active_witness:
  "reachable demo_dom Map.empty (boot demo_dom Map.empty []) \<and> 1 < length (links demo_dom) \<and>
   in_nav (links demo_dom ! 1) \<and> link_active (showPage demo_dom catalog (boot demo_dom Map.empty [])) ! 1"
  using demo_home_boot_reachable nav_links_active [OF demo_home_boot_reachable, of 1 catalog]
  by (simp add: catalog_def)

section \<open>Timer bounds\<close>

text \<open>C28. In every reachable state no pending callback is due more than 200 ms after the
  current time: the longest delay the script schedules is the render's.\<close>

theorem timers_due_bound:
  assumes "reachable d st s" and "t \<in> set (timers s)"
  shows "fst t \<le> clock s + 200"
  using reachable_render_inv [OF assms(1)] assms(2) by (simp add: render_inv_def timers_ok_def)

theorem timers_due_bound_witness:
  "reachable demo_dom [key_page \<mapsto> ''catalog''] demo_catalog_boot \<and>
   hd (timers demo_catalog_boot) \<in> set (timers demo_catalog_boot) \<and>
   fst (hd (timers demo_catalog_boot)) \<le> clock demo_catalog_boot + 200"
proof -
  have ne: "timers demo_catalog_boot \<noteq> []"
    by (simp add: boot_def Let_def schedule_def init_state_def demo_catalog_page)
  then have m: "hd (timers demo_catalog_boot) \<in> set (timers demo_catalog_boot)" by simp
  show ?thesis using demo_catalog_boot_reachable m timers_due_bound [OF demo_catalog_boot_reachable m]
    by simp
qed

section \<open>Interleavings of clicks and callbacks\<close>

text \<open>C31. No render is cancelled (spec section 5): on the catalog page with a bound grid,
  after a click on filter button \<open>i\<close> and then, no timer having fired in between, a
  click on filter button \<open>j\<close>, the pending callbacks run the render of the first click:
  for a moment the grid shows the cards of filter \<open>i\<close> while the filter is already
  \<open>j\<close>, and the render of the second click is still pending.\<close>

theorem stale_render_shown:
  assumes "reachable d st s" and "cur_page s = catalog" and "grid_bound s"
    and "i < length (filter_btns d)" and "step d s (User dt1 (FilterClick i)) = Some s1"
    and "j < length (filter_btns d)" and "step d s1 (User dt2 (FilterClick j)) = Some s2"
  shows "\<exists>n s3. run d s2 (replicate n Tick) = Some s3 \<and>
           grid_children s3 = visible_cards (search_arg d s) (filter_btns d ! i) (cur_sort s) (cards0 d) \<and>
           cur_filter s3 = filter_btns d ! j \<and> cur_page s3 = catalog \<and>
           (clock s2 + 200, Render (visible_cards (search_arg d s) (filter_btns d ! j) (cur_sort s) (cards0 d)))
             \<in> set (timers s3)"
proof -
  let ?Ri = "(clock s1 + 200, Render (visible_cards (search_arg d s) (filter_btns d ! i) (cur_sort s) (cards0 d)))"
  let ?Rj = "(clock s2 + 200, Render (visible_cards (search_arg d s) (filter_btns d ! j) (cur_sort s) (cards0 d)))"
  have bound: "\<forall>t \<in> set (timers s). fst t \<le> clock s + 200"
    using render_inv_timers_ok [OF reachable_render_inv [OF assms(1)]] by (simp add: timers_ok_def)
  from assms(5) have s1: "s1 = updateAndSave d None (Some (filter_btns d ! i)) (s\<lparr>clock := clock s + dt1\<rparr>)"
    by (cases rule: step_SomeE) (simp_all add: assms(4))
  have f1: "clock s1 = clock s + dt1" "cur_page s1 = catalog" "grid_bound s1" "cur_sort s1 = cur_sort s"
    "search_val s1 = search_val s"
    using s1 assms(2,3) by simp_all
  have b1: "\<forall>u \<in> set (timers s). fst u \<le> fst ?Ri" using bound f1(1) by auto
  have "timers s1 = insert_timer ?Ri (timers s)"
    using s1 assms(2,3) f1(1) by (simp add: timers_updateAndSave search_arg_def)
  also have "\<dots> = timers s @ [?Ri]" using b1 by (rule insert_timer_last)
  finally have t1: "timers s1 = timers s @ [?Ri]" .
  from assms(7) have s2: "s2 = updateAndSave d None (Some (filter_btns d ! j)) (s1\<lparr>clock := clock s1 + dt2\<rparr>)"
    by (cases rule: step_SomeE) (simp_all add: assms(6))
  have f2: "clock s2 = clock s1 + dt2" "cur_page s2 = catalog" "cur_filter s2 = filter_btns d ! j"
    using s2 f1 by simp_all
  have b2: "\<forall>u \<in> set (timers s @ [?Ri]). fst u \<le> fst ?Rj" using b1 f2(1) by auto
  have "timers s2 = insert_timer ?Rj (timers s1)"
    using s2 f1 by (simp add: timers_updateAndSave search_arg_def)
  also have "\<dots> = timers s @ ?Ri # [?Rj]" using b2 t1 insert_timer_last [OF b2] by simp
  finally have t2: "timers s2 = timers s @ ?Ri # [?Rj]" .
  have pre: "\<forall>u \<in> set (timers s). fst u \<le> clock s1 + 200" using bound f1(1) by auto
  have "clock s1 + 200 \<le> clock s2 + 200" using f2(1) by simp
  from fire_through [OF t2 pre this] obtain s3 where
    r: "run d s2 (replicate (Suc (length (timers s))) Tick) = Some s3"
    and g: "grid_children s3 = visible_cards (search_arg d s) (filter_btns d ! i) (cur_sort s) (cards0 d)"
    and p: "set [?Rj] \<subseteq> set (timers s3)" "cur_filter s3 = cur_filter s2" "cur_page s3 = cur_page s2"
    by blast
  have "?Rj \<in> set (timers s3)" "cur_filter s3 = filter_btns d ! j" "cur_page s3 = catalog"
    using p f2 by simp_all
  with r g show ?thesis by blast
qed

theorem stale_render_shown_witness:
  "reachable demo_dom [key_page \<mapsto> ''catalog''] demo_catalog_boot \<and>
   cur_page demo_catalog_boot = catalog \<and> grid_bound demo_catalog_boot \<and>
   1 < length (filter_btns demo_dom) \<and>
   step demo_dom demo_catalog_boot (User 0 (FilterClick 1)) =
     Some (handle demo_dom demo_catalog_boot (FilterClick 1)) \<and>
   2 < length (filter_btns demo_dom) \<and>
   step demo_dom (handle demo_dom demo_catalog_boot (FilterClick 1)) (User 0 (FilterClick 2)) =
     Some (handle demo_dom (handle demo_dom demo_catalog_boot (FilterClick 1)) (FilterClick 2)) \<and>
   (\<exists>n s3. run demo_dom (handle demo_dom (handle demo_dom demo_catalog_boot (FilterClick 1)) (FilterClick 2))
              (replicate n Tick) = Some s3 \<and>
      grid_children s3 = visible_cards (search_arg demo_dom demo_catalog_boot) ''a''
                           (cur_sort demo_catalog_boot) [demo_phone, demo_case] \<and>
      cur_filter s3 = ''b'' \<and> cur_page s3 = catalog)"
proof -
  let ?s = demo_catalog_boot
  let ?s1 = "handle demo_dom ?s (FilterClick 1)"
  let ?s2 = "handle demo_dom ?s1 (FilterClick 2)"
  have c0: "clock ?s = 0" using boot_timers_catalog(2) [OF demo_catalog_page] by simp
  then have e0: "?s\<lparr>clock := clock ?s + 0\<rparr> = ?s" by simp
  have st1: "step demo_dom ?s (User 0 (FilterClick 1)) = Some ?s1"
    by (simp only: step.simps c0 add_0_right e0 [unfolded c0 add_0_right]) simp
  have c1: "clock ?s1 = 0" using c0 by simp
  then have e1: "?s1\<lparr>clock := clock ?s1 + 0\<rparr> = ?s1" by simp
  have st2: "step demo_dom ?s1 (User 0 (FilterClick 2)) = Some ?s2"
    by (simp only: step.simps c1 add_0_right e1 [unfolded c1 add_0_right]) simp
  have i: "1 < length (filter_btns demo_dom)" and j: "2 < length (filter_btns demo_dom)" by simp_all
  show ?thesis
    using demo_catalog_boot_reachable demo_catalog_boot_fields st1 st2 i j
      stale_render_shown [OF demo_catalog_boot_reachable demo_catalog_boot_fields i st1 j st2]
    by auto
qed

text \<open>C32. Start-up on the catalog page: \<open>showPage\<close> (line 216) runs the pipeline
  before the search box is restored (lines 218--220), so the first render, due at 200 ms,
  shows the cards for the search box's initial value although the box already holds the
  stored search text; only the re-application of line 224 renders for the stored text.\<close>

theorem startup_render_before_restore:
  assumes "startup d st = Inr s" and "get_or st key_page ''home'' = catalog" and "has_grid d"
  shows "\<exists>s'. run d s [Tick, Tick] = Some s' \<and>
           grid_children s' = visible_cards (if has_search d then Some (search_init d) else None)
                                (get_or st key_filter ''all'') (get_or st key_sort ''default'') (cards0 d) \<and>
           search_val s' = stored_search d st"
proof -
  obtain favs where s: "s = boot d st favs" using assms(1) by (auto simp: startup_Inr)
  have b: "grid_bound s" using s assms(2,3) by (simp add: boot_grid_bound)
  show ?thesis
    using s b boot_timers_catalog [OF assms(2,3), of favs]
    by (simp add: fire_def timers_apply boot_fields)
qed

theorem startup_render_before_restore_witness:
  "startup demo_dom [key_page \<mapsto> ''catalog'', key_search \<mapsto> ''case''] =
     Inr (boot demo_dom [key_page \<mapsto> ''catalog'', key_search \<mapsto> ''case''] []) \<and>
   get_or [key_page \<mapsto> ''catalog'', key_search \<mapsto> ''case''] key_page ''home'' = catalog \<and>
   has_grid demo_dom \<and>
   (\<exists>s'. run demo_dom (boot demo_dom [key_page \<mapsto> ''catalog'', key_search \<mapsto> ''case''] []) [Tick, Tick] = Some s' \<and>
      grid_children s' = visible_cards (Some []) ''all'' ''default'' [demo_phone, demo_case] \<and>
      search_val s' = ''case'')"
proof -
  let ?st = "[key_page \<mapsto> ''catalog'', key_search \<mapsto> ''case'']"
  have u: "startup demo_dom ?st = Inr (boot demo_dom ?st [])" by (simp add: startup_def get_or_def)
  have p: "get_or ?st key_page ''home'' = catalog" by (simp add: get_or_def catalog_def)
  have g: "has_grid demo_dom" by simp
  show ?thesis
    using u p g startup_render_before_restore [OF u p g]
    by (simp add: get_or_def stored_search_def)
qed

end
